theory Spec2Isabelle
  imports Main "HOL-Library.Word"
begin

unbundle bit_operations_syntax

section \<open>win\_utils.c: the data of the program and of the native layer\<close>

text \<open>
  A narrow string is a NUL-terminated \<^verbatim>\<open>char*\<close>, a wide string a NUL-terminated
  \<^verbatim>\<open>wchar_t*\<close> (16 bits on Windows). Both are lists of the characters before the
  terminator; a pointer that may be \<^verbatim>\<open>NULL\<close> is an \<open>option\<close>.
\<close>

type_synonym cstring = string
type_synonym wchar_t = "16 word"
type_synonym wstring = "wchar_t list"
type_synonym DWORD = "32 word"
type_synonym HANDLE = int

text \<open>The wide literal \<^verbatim>\<open>L"..."\<close> of an ASCII string.\<close>

definition wide :: "string \<Rightarrow> wstring" where
  "wide s = map (\<lambda>c. of_char c) s"

subsection \<open>Constants of the platform headers\<close>

text \<open>
  The file includes \<^verbatim>\<open>windows.h\<close>, \<^verbatim>\<open>errno.h\<close>, \<^verbatim>\<open>share.h\<close> and
  \<^verbatim>\<open>fcntl.h\<close>; the constants below carry the values of these headers
  (\<^verbatim>\<open>winerror.h\<close>, \<^verbatim>\<open>winnls.h\<close> and the C runtime of the platform).
\<close>

definition NO_ERROR :: DWORD where "NO_ERROR = 0"
definition ERROR_FILE_NOT_FOUND :: DWORD where "ERROR_FILE_NOT_FOUND = 2"
definition ERROR_PATH_NOT_FOUND :: DWORD where "ERROR_PATH_NOT_FOUND = 3"
definition ERROR_TOO_MANY_OPEN_FILES :: DWORD where "ERROR_TOO_MANY_OPEN_FILES = 4"
definition ERROR_ACCESS_DENIED :: DWORD where "ERROR_ACCESS_DENIED = 5"
definition ERROR_INVALID_HANDLE :: DWORD where "ERROR_INVALID_HANDLE = 6"
definition ERROR_NOT_ENOUGH_MEMORY :: DWORD where "ERROR_NOT_ENOUGH_MEMORY = 8"
definition ERROR_INVALID_BLOCK :: DWORD where "ERROR_INVALID_BLOCK = 9"
definition ERROR_INVALID_ACCESS :: DWORD where "ERROR_INVALID_ACCESS = 12"
definition ERROR_INVALID_DATA :: DWORD where "ERROR_INVALID_DATA = 13"
definition ERROR_INVALID_DRIVE :: DWORD where "ERROR_INVALID_DRIVE = 15"
definition ERROR_WRITE_PROTECT :: DWORD where "ERROR_WRITE_PROTECT = 19"
definition ERROR_SHARING_VIOLATION :: DWORD where "ERROR_SHARING_VIOLATION = 32"
definition ERROR_LOCK_VIOLATION :: DWORD where "ERROR_LOCK_VIOLATION = 33"
definition ERROR_SHARING_BUFFER_EXCEEDED :: DWORD where "ERROR_SHARING_BUFFER_EXCEEDED = 36"
definition ERROR_BAD_NETPATH :: DWORD where "ERROR_BAD_NETPATH = 53"
definition ERROR_NETWORK_ACCESS_DENIED :: DWORD where "ERROR_NETWORK_ACCESS_DENIED = 65"
definition ERROR_FAIL_I24 :: DWORD where "ERROR_FAIL_I24 = 83"
definition ERROR_INVALID_PARAMETER :: DWORD where "ERROR_INVALID_PARAMETER = 87"
definition ERROR_DRIVE_LOCKED :: DWORD where "ERROR_DRIVE_LOCKED = 108"
definition ERROR_BROKEN_PIPE :: DWORD where "ERROR_BROKEN_PIPE = 109"
definition ERROR_DISK_FULL :: DWORD where "ERROR_DISK_FULL = 112"
definition ERROR_SEEK_ON_DEVICE :: DWORD where "ERROR_SEEK_ON_DEVICE = 132"
definition ERROR_NOT_LOCKED :: DWORD where "ERROR_NOT_LOCKED = 158"
definition ERROR_BAD_PATHNAME :: DWORD where "ERROR_BAD_PATHNAME = 161"
definition ERROR_LOCK_FAILED :: DWORD where "ERROR_LOCK_FAILED = 167"
definition ERROR_ALREADY_EXISTS :: DWORD where "ERROR_ALREADY_EXISTS = 183"
definition ERROR_FILENAME_EXCED_RANGE :: DWORD where "ERROR_FILENAME_EXCED_RANGE = 206"
definition ERROR_NESTING_NOT_ALLOWED :: DWORD where "ERROR_NESTING_NOT_ALLOWED = 215"
definition ERROR_NO_DATA :: DWORD where "ERROR_NO_DATA = 232"
definition ERROR_NOT_ENOUGH_QUOTA :: DWORD where "ERROR_NOT_ENOUGH_QUOTA = 1816"

definition ENOENT :: int where "ENOENT = 2"
definition EBADF :: int where "EBADF = 9"
definition EAGAIN :: int where "EAGAIN = 11"
definition ENOMEM :: int where "ENOMEM = 12"
definition EACCES :: int where "EACCES = 13"
definition EEXIST :: int where "EEXIST = 17"
definition EINVAL :: int where "EINVAL = 22"
definition EMFILE :: int where "EMFILE = 24"
definition ENOSPC :: int where "ENOSPC = 28"
definition EPIPE :: int where "EPIPE = 32"

subsection \<open>The state the program shares with the native layer\<close>

text \<open>
  \<open>errno\<close> is the C runtime's variable, \<open>last_error\<close> the value \<^verbatim>\<open>GetLastError()\<close>
  returns, \<open>hidden\<close> whatever else the operating system keeps (the file system, the open
  handles), and \<open>trace\<close> the native calls made so far, in order.
\<close>

datatype call =
    MultiByteToWideChar_call int DWORD cstring nat
  | WideCharToMultiByte_call int wstring nat
  | wfsopen_call wstring wstring int
  | wsopen_call wstring int int int
  | close_call int
  | FindFirstFileW_call wstring
  | FindNextFileW_call HANDLE
  | FindClose_call HANDLE
  | malloc_call nat

record 'h world =
  errno :: int
  last_error :: DWORD
  hidden :: 'h
  trace :: "call list"

definition GetLastError :: "'h world \<Rightarrow> DWORD" where
  "GetLastError w = last_error w"

section \<open>The native layer and the headers that are not part of the file\<close>

text \<open>The native directory record \<^verbatim>\<open>WIN32_FIND_DATAW\<close>: the fields the program reads.
  \<open>cFileName\<close> is the array read as a NUL-terminated string.\<close>

record WIN32_FIND_DATAW =
  dwFileAttributes :: DWORD
  cFileName :: wstring

type_synonym FILE = nat

text \<open>
  Every function the program calls outside the file is a parameter: it takes the state
  and returns its result with the new state, so nothing is assumed about what the
  operating system answers.
  \<^item> \<open>n_MultiByteToWideChar cp flags str cch\<close> is
    \<^verbatim>\<open>MultiByteToWideChar(cp, flags, str, -1, buf, cch)\<close>: the returned count
    (0 on failure) and the contents of \<^verbatim>\<open>buf\<close> after the call (irrelevant when
    \<open>cch = 0\<close>, where \<^verbatim>\<open>buf\<close> is \<^verbatim>\<open>NULL\<close>).
  \<^item> \<open>n_WideCharToMultiByte cp wstr cb used\<close> is
    \<^verbatim>\<open>WideCharToMultiByte(cp, 0, wstr, -1, buf, cb, 0, lpUsedDefaultChar)\<close>, where
    \<open>used\<close> says that \<^verbatim>\<open>lpUsedDefaultChar\<close> is not \<^verbatim>\<open>NULL\<close>: the returned count, the
    contents of \<^verbatim>\<open>buf\<close> and the value stored through \<^verbatim>\<open>lpUsedDefaultChar\<close>.
  \<^item> \<open>n_wfsopen\<close>, \<open>n_wsopen\<close>, \<open>n_close\<close> are \<^verbatim>\<open>_wfsopen\<close>, \<^verbatim>\<open>_wsopen\<close> and
    \<^verbatim>\<open>_close\<close> of the C runtime; \<open>n_malloc\<close> says whether \<^verbatim>\<open>malloc\<close> returned a block.
  \<^item> \<open>n_FindFirstFileW\<close> and \<open>n_FindNextFileW\<close> take the record buffer and return it as
    the call left it.
  The constants \<^verbatim>\<open>OPT_UTF8\<close>, \<^verbatim>\<open>OPT_OEM\<close> (\<^verbatim>\<open>parse_cmdline.h\<close>),
  \<^verbatim>\<open>SYS_PATH_SEPARATOR\<close>, \<^verbatim>\<open>IS_PATH_SEPARATOR_W\<close> (\<^verbatim>\<open>common_func.h\<close>) and
  \<^verbatim>\<open>sizeof(WIN_DIR)\<close> are parameters as well. \<^verbatim>\<open>rsh_malloc\<close> (\<^verbatim>\<open>common_func.h\<close>)
  ends the process when memory runs out and otherwise returns a block; \<^verbatim>\<open>free\<close>
  changes nothing the program reads.
\<close>

record 'h env =
  OPT_UTF8 :: DWORD
  OPT_OEM :: DWORD
  SYS_PATH_SEPARATOR :: wchar_t
  IS_PATH_SEPARATOR_W :: "wchar_t \<Rightarrow> bool"
  sizeof_WIN_DIR :: nat
  n_MultiByteToWideChar ::
    "int \<Rightarrow> DWORD \<Rightarrow> cstring \<Rightarrow> nat \<Rightarrow> 'h world \<Rightarrow> (nat \<times> wstring) \<times> 'h world"
  n_WideCharToMultiByte ::
    "int \<Rightarrow> wstring \<Rightarrow> nat \<Rightarrow> bool \<Rightarrow> 'h world \<Rightarrow> (nat \<times> cstring \<times> bool) \<times> 'h world"
  n_wfsopen :: "wstring \<Rightarrow> wstring \<Rightarrow> int \<Rightarrow> 'h world \<Rightarrow> FILE option \<times> 'h world"
  n_wsopen :: "wstring \<Rightarrow> int \<Rightarrow> int \<Rightarrow> int \<Rightarrow> 'h world \<Rightarrow> int \<times> 'h world"
  n_close :: "int \<Rightarrow> 'h world \<Rightarrow> int \<times> 'h world"
  n_FindFirstFileW ::
    "wstring \<Rightarrow> WIN32_FIND_DATAW \<Rightarrow> 'h world \<Rightarrow> (HANDLE \<times> WIN32_FIND_DATAW) \<times> 'h world"
  n_FindNextFileW ::
    "HANDLE \<Rightarrow> WIN32_FIND_DATAW \<Rightarrow> 'h world \<Rightarrow> (bool \<times> WIN32_FIND_DATAW) \<times> 'h world"
  n_FindClose :: "HANDLE \<Rightarrow> 'h world \<Rightarrow> bool \<times> 'h world"
  n_malloc :: "nat \<Rightarrow> 'h world \<Rightarrow> bool \<times> 'h world"

text \<open>A native call is recorded in the trace; the callee cannot rewrite the record.\<close>

definition native_call ::
  "call \<Rightarrow> ('h world \<Rightarrow> 'a \<times> 'h world) \<Rightarrow> 'h world \<Rightarrow> 'a \<times> 'h world" where
  "native_call c f w = (case f w of (r, w') \<Rightarrow> (r, w'\<lparr>trace := trace w @ [c]\<rparr>))"

definition MultiByteToWideChar ::
  "'h env \<Rightarrow> int \<Rightarrow> DWORD \<Rightarrow> cstring \<Rightarrow> nat \<Rightarrow> 'h world \<Rightarrow> (nat \<times> wstring) \<times> 'h world" where
  "MultiByteToWideChar E cp fl str cch =
     native_call (MultiByteToWideChar_call cp fl str cch) (n_MultiByteToWideChar E cp fl str cch)"

definition WideCharToMultiByte ::
  "'h env \<Rightarrow> int \<Rightarrow> wstring \<Rightarrow> nat \<Rightarrow> bool \<Rightarrow> 'h world
     \<Rightarrow> (nat \<times> cstring \<times> bool) \<times> 'h world" where
  "WideCharToMultiByte E cp wstr cb used =
     native_call (WideCharToMultiByte_call cp wstr cb) (n_WideCharToMultiByte E cp wstr cb used)"

definition wfsopen ::
  "'h env \<Rightarrow> wstring \<Rightarrow> wstring \<Rightarrow> int \<Rightarrow> 'h world \<Rightarrow> FILE option \<times> 'h world" where
  "wfsopen E wpath wmode shflag =
     native_call (wfsopen_call wpath wmode shflag) (n_wfsopen E wpath wmode shflag)"

definition wsopen ::
  "'h env \<Rightarrow> wstring \<Rightarrow> int \<Rightarrow> int \<Rightarrow> int \<Rightarrow> 'h world \<Rightarrow> int \<times> 'h world" where
  "wsopen E wpath oflag shflag pmode =
     native_call (wsopen_call wpath oflag shflag pmode) (n_wsopen E wpath oflag shflag pmode)"

definition close_fd :: "'h env \<Rightarrow> int \<Rightarrow> 'h world \<Rightarrow> int \<times> 'h world" where
  "close_fd E fd = native_call (close_call fd) (n_close E fd)"

definition FindFirstFileW ::
  "'h env \<Rightarrow> wstring \<Rightarrow> WIN32_FIND_DATAW \<Rightarrow> 'h world
     \<Rightarrow> (HANDLE \<times> WIN32_FIND_DATAW) \<times> 'h world" where
  "FindFirstFileW E wpath buf = native_call (FindFirstFileW_call wpath) (n_FindFirstFileW E wpath buf)"

definition FindNextFileW ::
  "'h env \<Rightarrow> HANDLE \<Rightarrow> WIN32_FIND_DATAW \<Rightarrow> 'h world
     \<Rightarrow> (bool \<times> WIN32_FIND_DATAW) \<times> 'h world" where
  "FindNextFileW E h buf = native_call (FindNextFileW_call h) (n_FindNextFileW E h buf)"

definition FindClose :: "'h env \<Rightarrow> HANDLE \<Rightarrow> 'h world \<Rightarrow> bool \<times> 'h world" where
  "FindClose E h = native_call (FindClose_call h) (n_FindClose E h)"

definition malloc :: "'h env \<Rightarrow> nat \<Rightarrow> 'h world \<Rightarrow> bool \<times> 'h world" where
  "malloc E n = native_call (malloc_call n) (n_malloc E n)"

text \<open>Constants of \<^verbatim>\<open>winnls.h\<close>, \<^verbatim>\<open>winbase.h\<close>, \<^verbatim>\<open>share.h\<close> and \<^verbatim>\<open>fcntl.h\<close>
  (\<^verbatim>\<open>_SH_DENYWR\<close>, \<^verbatim>\<open>_O_RDONLY\<close>, ... without the leading underscore).\<close>

definition CP_ACP :: int where "CP_ACP = 0"
definition CP_OEMCP :: int where "CP_OEMCP = 1"
definition CP_UTF8 :: int where "CP_UTF8 = 65001"
definition MB_ERR_INVALID_CHARS :: DWORD where "MB_ERR_INVALID_CHARS = 8"
definition INVALID_HANDLE_VALUE :: HANDLE where "INVALID_HANDLE_VALUE = - 1"
definition FILE_ATTRIBUTE_DIRECTORY :: DWORD where "FILE_ATTRIBUTE_DIRECTORY = 16"
definition SH_DENYWR :: int where "SH_DENYWR = 32"
definition SH_DENYNO :: int where "SH_DENYNO = 64"
definition O_RDONLY :: int where "O_RDONLY = 0"
definition O_BINARY :: int where "O_BINARY = 32768"

text \<open>\<^verbatim>\<open>WIN_DEFAULT_ENCODING\<close> (\<^verbatim>\<open>win_utils.h\<close>) is the value \<^verbatim>\<open>wchar_to_cstr\<close>
  tests for and \<^verbatim>\<open>w2c\<close> passes.\<close>

definition WIN_DEFAULT_ENCODING :: int where "WIN_DEFAULT_ENCODING = - 1"

section \<open>Codepage converter\<close>

text \<open>\<^verbatim>\<open>cstr_to_wchar\<close>: the size is asked for with \<^verbatim>\<open>MB_ERR_INVALID_CHARS\<close>, the
  buffer is filled with flags 0, and the second call's return value is not read.\<close>

definition cstr_to_wchar ::
  "'h env \<Rightarrow> cstring \<Rightarrow> int \<Rightarrow> 'h world \<Rightarrow> wstring option \<times> 'h world" where
  "cstr_to_wchar E str codepage w =
    (case MultiByteToWideChar E codepage MB_ERR_INVALID_CHARS str 0 w of
       ((sz, _), w1) \<Rightarrow>
         if sz = 0 then (None, w1)
         else (case MultiByteToWideChar E codepage 0 str sz w1 of
                 ((_, buf), w2) \<Rightarrow> (Some buf, w2)))"

text \<open>\<^verbatim>\<open>c2w\<close>; \<open>flags\<close> is \<^verbatim>\<open>opt.flags\<close>.\<close>

definition c2w ::
  "'h env \<Rightarrow> DWORD \<Rightarrow> cstring \<Rightarrow> int \<Rightarrow> 'h world \<Rightarrow> wstring option \<times> 'h world" where
  "c2w E flags str try_no w =
    (let is_utf = (try_no = (if flags AND OPT_UTF8 E \<noteq> 0 then 0 else 1));
         codepage = (if is_utf then CP_UTF8
                     else if flags AND OPT_OEM E \<noteq> 0 then CP_OEMCP else CP_ACP)
     in cstr_to_wchar E str codepage w)"

definition utf8_to_wchar ::
  "'h env \<Rightarrow> cstring \<Rightarrow> 'h world \<Rightarrow> wstring option \<times> 'h world" where
  "utf8_to_wchar E utf8_str w = cstr_to_wchar E utf8_str CP_UTF8 w"

text \<open>\<^verbatim>\<open>wchar_to_cstr\<close>: \<open>failed\<close> says that the pointer \<^verbatim>\<open>failed\<close> is not \<^verbatim>\<open>NULL\<close>;
  the second component of the result is the value stored through it, if any.\<close>

definition wchar_to_cstr ::
  "'h env \<Rightarrow> DWORD \<Rightarrow> wstring \<Rightarrow> int \<Rightarrow> bool \<Rightarrow> 'h world
     \<Rightarrow> (cstring option \<times> int option) \<times> 'h world" where
  "wchar_to_cstr E flags wstr codepage0 failed w =
    (let codepage = (if codepage0 = - 1
                     then (if flags AND OPT_UTF8 E \<noteq> 0 then CP_UTF8
                           else if flags AND OPT_OEM E \<noteq> 0 then CP_OEMCP else CP_ACP)
                     else codepage0);
         lpUsedDefaultChar = (failed \<and> codepage \<noteq> CP_UTF8)
     in case WideCharToMultiByte E codepage wstr 0 False w of
          ((sz, _, _), w1) \<Rightarrow>
            if sz = 0 then ((None, if failed then Some 1 else None), w1)
            else (case WideCharToMultiByte E codepage wstr sz lpUsedDefaultChar w1 of
                    ((_, buf, bUsedDefChar), w2) \<Rightarrow>
                      ((Some buf,
                        if failed
                        then Some (if lpUsedDefaultChar \<and> bUsedDefChar then 1 else 0)
                        else None), w2)))"

definition w2c :: "'h env \<Rightarrow> DWORD \<Rightarrow> wstring \<Rightarrow> 'h world \<Rightarrow> cstring option \<times> 'h world" where
  "w2c E flags wstr w =
    (case wchar_to_cstr E flags wstr (- 1) False w of ((r, _), w') \<Rightarrow> (r, w'))"

section \<open>Exclusive file accessor\<close>

text \<open>
  \<^verbatim>\<open>win_fopen_ex\<close>: the loop \<^verbatim>\<open>for (i = 0; i < 2; i++)\<close> with its \<^verbatim>\<open>continue\<close> and
  its \<^verbatim>\<open>break\<close>; \<open>fd\<close> is the variable of that name. The function itself is
  \<open>None\<close> when \<^verbatim>\<open>assert(wmode != NULL)\<close> fails.
\<close>

function win_fopen_ex_loop ::
  "'h env \<Rightarrow> DWORD \<Rightarrow> cstring \<Rightarrow> wstring \<Rightarrow> int \<Rightarrow> int \<Rightarrow> FILE option \<Rightarrow> 'h world
     \<Rightarrow> FILE option \<times> 'h world" where
  "win_fopen_ex_loop E flags path wmode exclusive i fd w =
    (if i < 2 then
       (case c2w E flags path i w of
          (None, w1) \<Rightarrow> win_fopen_ex_loop E flags path wmode exclusive (i + 1) fd w1
        | (Some wpath, w1) \<Rightarrow>
            (case wfsopen E wpath wmode (if exclusive \<noteq> 0 then SH_DENYWR else SH_DENYNO) w1 of
               (fd', w2) \<Rightarrow>
                 if fd' \<noteq> None \<or> errno w2 \<noteq> ENOENT then (fd', w2)
                 else win_fopen_ex_loop E flags path wmode exclusive (i + 1) fd' w2))
     else (fd, w))"
  by pat_completeness auto
termination
  by (relation "measure (\<lambda>(E, flags, path, wmode, exclusive, i, fd, w). nat (2 - i))") auto

definition win_fopen_ex ::
  "'h env \<Rightarrow> DWORD \<Rightarrow> cstring \<Rightarrow> cstring \<Rightarrow> int \<Rightarrow> 'h world
     \<Rightarrow> (FILE option \<times> 'h world) option" where
  "win_fopen_ex E flags path mode exclusive w =
    (case utf8_to_wchar E mode w of
       (None, w0) \<Rightarrow> None
     | (Some wmode, w0) \<Rightarrow> Some (win_fopen_ex_loop E flags path wmode exclusive 0 None w0))"

text \<open>\<^verbatim>\<open>can_open_exclusive\<close>: the loop \<^verbatim>\<open>for (i = 0; i < 2 && res == 0; i++)\<close>.\<close>

function can_open_exclusive_loop ::
  "'h env \<Rightarrow> DWORD \<Rightarrow> cstring \<Rightarrow> int \<Rightarrow> int \<Rightarrow> 'h world \<Rightarrow> int \<times> 'h world" where
  "can_open_exclusive_loop E flags path i res w =
    (if i < 2 \<and> res = 0 then
       (case c2w E flags path i w of
          (None, w1) \<Rightarrow> can_open_exclusive_loop E flags path (i + 1) res w1
        | (Some wpath, w1) \<Rightarrow>
            (case wsopen E wpath (or O_RDONLY O_BINARY) SH_DENYWR 0 w1 of
               (fd, w2) \<Rightarrow>
                 if fd \<ge> 0
                 then (case close_fd E fd w2 of
                         (_, w3) \<Rightarrow> can_open_exclusive_loop E flags path (i + 1) 1 w3)
                 else can_open_exclusive_loop E flags path (i + 1) res w2))
     else (res, w))"
  by pat_completeness auto
termination
  by (relation "measure (\<lambda>(E, flags, path, i, res, w). nat (2 - i))") auto

definition can_open_exclusive ::
  "'h env \<Rightarrow> DWORD \<Rightarrow> cstring \<Rightarrow> 'h world \<Rightarrow> int \<times> 'h world" where
  "can_open_exclusive E flags path w = can_open_exclusive_loop E flags path 0 0 w"

section \<open>Error translator\<close>

text \<open>\<^verbatim>\<open>#define MIN_EACCES_RANGE ERROR_WRITE_PROTECT\<close> and
  \<^verbatim>\<open>#define MAX_EACCES_RANGE ERROR_SHARING_BUFFER_EXCEEDED\<close>.\<close>

definition MIN_EACCES_RANGE :: DWORD where
  "MIN_EACCES_RANGE = ERROR_WRITE_PROTECT"

definition MAX_EACCES_RANGE :: DWORD where
  "MAX_EACCES_RANGE = ERROR_SHARING_BUFFER_EXCEEDED"

text \<open>\<^verbatim>\<open>convert_last_error_to_errno\<close>: the \<^verbatim>\<open>switch\<close>, label by label, then the
  detection by range.\<close>

definition convert_last_error_to_errno :: "'h world \<Rightarrow> int" where
  "convert_last_error_to_errno w =
    (let error_code = GetLastError w in
     if error_code = NO_ERROR then 0
     else if error_code = ERROR_FILE_NOT_FOUND \<or> error_code = ERROR_PATH_NOT_FOUND
       \<or> error_code = ERROR_INVALID_DRIVE \<or> error_code = ERROR_BAD_NETPATH
       \<or> error_code = ERROR_BAD_PATHNAME \<or> error_code = ERROR_FILENAME_EXCED_RANGE
       then ENOENT
     else if error_code = ERROR_TOO_MANY_OPEN_FILES then EMFILE
     else if error_code = ERROR_ACCESS_DENIED \<or> error_code = ERROR_SHARING_VIOLATION
       then EACCES
     else if error_code = ERROR_NETWORK_ACCESS_DENIED \<or> error_code = ERROR_FAIL_I24
       \<or> error_code = ERROR_SEEK_ON_DEVICE
       then EACCES
     else if error_code = ERROR_LOCK_VIOLATION \<or> error_code = ERROR_DRIVE_LOCKED
       \<or> error_code = ERROR_NOT_LOCKED \<or> error_code = ERROR_LOCK_FAILED
       then EACCES
     else if error_code = ERROR_INVALID_HANDLE then EBADF
     else if error_code = ERROR_NOT_ENOUGH_MEMORY \<or> error_code = ERROR_INVALID_BLOCK
       \<or> error_code = ERROR_NOT_ENOUGH_QUOTA
       then ENOMEM
     else if error_code = ERROR_INVALID_ACCESS \<or> error_code = ERROR_INVALID_DATA
       \<or> error_code = ERROR_INVALID_PARAMETER
       then EINVAL
     else if error_code = ERROR_BROKEN_PIPE \<or> error_code = ERROR_NO_DATA then EPIPE
     else if error_code = ERROR_DISK_FULL then ENOSPC
     else if error_code = ERROR_ALREADY_EXISTS then EEXIST
     else if error_code = ERROR_NESTING_NOT_ALLOWED then EAGAIN
     else if MIN_EACCES_RANGE \<le> error_code \<and> error_code \<le> MAX_EACCES_RANGE
       then EACCES
     else EINVAL)"

text \<open>\<^verbatim>\<open>set_errno_from_last_file_error\<close>: \<^verbatim>\<open>errno = convert_last_error_to_errno()\<close>.\<close>

definition set_errno_from_last_file_error :: "'h world \<Rightarrow> 'h world" where
  "set_errno_from_last_file_error w = w\<lparr>errno := convert_last_error_to_errno w\<rparr>"

section \<open>Path composer\<close>

text \<open>\<^verbatim>\<open>while (IS_PATH_SEPARATOR_W(*filename)) filename++;\<close> (the macro is false on the
  terminator, where the list ends).\<close>

fun skip_path_separators :: "(wchar_t \<Rightarrow> bool) \<Rightarrow> wstring \<Rightarrow> wstring" where
  "skip_path_separators is_sep [] = []"
| "skip_path_separators is_sep (c # filename) =
     (if is_sep c then skip_path_separators is_sep filename else c # filename)"

text \<open>\<^verbatim>\<open>size_t\<close>, with the width of the 64-bit platform; \<^verbatim>\<open>(size_t)-1\<close> is \<open>- 1\<close>.\<close>

type_synonym size_t = "64 word"

text \<open>
  \<^verbatim>\<open>make_pathw\<close>; the result is the buffer read as a NUL-terminated string.
  \<open>dir_path = None\<close> is the \<^verbatim>\<open>NULL\<close> pointer. With \<open>dir_len\<close> one more than the length of
  \<open>dir_path\<close>, \<^verbatim>\<open>memcpy\<close> copies the terminator as well: whatever is stored behind it, the
  buffer reads as the directory alone. A larger \<open>dir_len\<close> makes \<^verbatim>\<open>memcpy\<close> read what is
  behind the terminator of \<open>dir_path\<close>, which the function does not know: the result is
  \<open>None\<close> there.
\<close>

definition make_pathw ::
  "'h env \<Rightarrow> wstring option \<Rightarrow> size_t \<Rightarrow> wstring \<Rightarrow> wstring option" where
  "make_pathw E dir_path dir_len0 filename0 =
    (case dir_path of
       None \<Rightarrow> Some filename0
     | Some dp \<Rightarrow>
         (let filename = skip_path_separators (IS_PATH_SEPARATOR_W E) filename0;
              dir_len = (if dir_len0 = - 1 then length dp else unat dir_len0)
          in if dir_len > length dp + 1 then None
             else if dir_len = length dp + 1 then Some dp
             else if dir_len > 0
             then (let res = take dir_len dp
                   in if res ! (dir_len - 1) \<noteq> SYS_PATH_SEPARATOR E
                      then Some (res @ [SYS_PATH_SEPARATOR E] @ filename)
                      else Some (res @ filename))
             else Some filename))"

section \<open>Directory iterator\<close>

text \<open>\<^verbatim>\<open>struct win_dirent\<close> (\<^verbatim>\<open>win_utils.h\<close>), from the fields the file assigns.
  \<^verbatim>\<open>d_wname\<close> points into \<^verbatim>\<open>findFileData.cFileName\<close> of the iterator: the model holds
  the string found there when the entry is returned.\<close>

record win_dirent =
  d_name :: "cstring option"
  d_wname :: "wstring option"
  d_isdir :: int

text \<open>\<^verbatim>\<open>struct WIN_DIR_t\<close>; \<open>state\<close>: 0 - not started, -1 - ended, otherwise the file
  index. It counts the records read, as an integer without a bound.\<close>

record WIN_DIR =
  findFileData :: WIN32_FIND_DATAW
  hFind :: HANDLE
  dir :: win_dirent
  state :: int

text \<open>The block after \<^verbatim>\<open>memset(d, 0, sizeof(WIN_DIR))\<close>.\<close>

definition zeroed_WIN_DIR :: WIN_DIR where
  "zeroed_WIN_DIR =
     \<lparr>findFileData = \<lparr>dwFileAttributes = 0, cFileName = []\<rparr>, hFind = 0,
      dir = \<lparr>d_name = None, d_wname = None, d_isdir = 0\<rparr>, state = 0\<rparr>"

text \<open>
  \<^verbatim>\<open>win_opendir\<close>, statement by statement, in two parts. \<open>win_opendir_find\<close> is the
  part from \<^verbatim>\<open>wpath = c2w(path, 0)\<close> to the end of the attempt with the secondary
  codepage: it takes the block \<open>d0\<close> as \<^verbatim>\<open>memset\<close> left it and returns it with \<open>hFind\<close>
  and \<open>findFileData\<close> as the attempts left them.
\<close>

definition win_opendir_find ::
  "'h env \<Rightarrow> DWORD \<Rightarrow> cstring \<Rightarrow> WIN_DIR \<Rightarrow> 'h world \<Rightarrow> WIN_DIR \<times> 'h world" where
  "win_opendir_find E flags path d0 wb =
    (case c2w E flags path 0 wb of (wpath, w1) \<Rightarrow>
     case (case wpath of
             Some wp \<Rightarrow> FindFirstFileW E wp (findFileData d0) w1
           | None \<Rightarrow> ((INVALID_HANDLE_VALUE, findFileData d0), w1)) of
       ((h, buf), w2) \<Rightarrow>
    (let d = d0\<lparr>hFind := h, findFileData := buf\<rparr> in
     if hFind d = INVALID_HANDLE_VALUE \<and> GetLastError w2 \<noteq> ERROR_ACCESS_DENIED
     then (case c2w E flags path 1 w2 of
             (Some wp, w3) \<Rightarrow>
               (case FindFirstFileW E wp (findFileData d) w3 of
                  ((h, buf), w4) \<Rightarrow> (d\<lparr>hFind := h, findFileData := buf\<rparr>, w4))
           | (None, w3) \<Rightarrow> (d, w3))
     else (d, w2)))"

definition win_opendir ::
  "'h env \<Rightarrow> DWORD \<Rightarrow> cstring \<Rightarrow> 'h world \<Rightarrow> WIN_DIR option \<times> 'h world" where
  "win_opendir E flags dir_path w =
    (let len = length dir_path in
     case malloc E (len + 3) w of
       (False, wa) \<Rightarrow> (None, wa)
     | (True, wa) \<Rightarrow>
    (let path = dir_path @ [CHR 0x5C, CHR ''*''] in
     case malloc E (sizeof_WIN_DIR E) wa of
       (False, wb) \<Rightarrow> (None, wb)
     | (True, wb) \<Rightarrow>
    (case win_opendir_find E flags path zeroed_WIN_DIR wb of
       (d, w5) \<Rightarrow>
         if hFind d = INVALID_HANDLE_VALUE \<and> GetLastError w5 = ERROR_ACCESS_DENIED
         then (None, w5\<lparr>errno := EACCES\<rparr>)
         else (let w6 = set_errno_from_last_file_error w5;
                   d = d\<lparr>state := (if hFind d = INVALID_HANDLE_VALUE then - 1 else 0)\<rparr>;
                   d = d\<lparr>dir := (dir d)\<lparr>d_name := None\<rparr>\<rparr>
               in (Some d, w6)))))"

text \<open>\<^verbatim>\<open>win_closedir\<close>.\<close>

definition win_closedir :: "'h env \<Rightarrow> WIN_DIR \<Rightarrow> 'h world \<Rightarrow> 'h world" where
  "win_closedir E d w =
    (if hFind d \<noteq> INVALID_HANDLE_VALUE then snd (FindClose E (hFind d) w) else w)"

text \<open>\<open>wchar_at s i\<close> is \<^verbatim>\<open>s[i]\<close> for an index up to the terminator.\<close>

definition wchar_at :: "wstring \<Rightarrow> nat \<Rightarrow> wchar_t" where
  "wchar_at s i = (if i < length s then s ! i else 0)"

text \<open>
  \<^verbatim>\<open>win_readdir\<close>: the loop \<^verbatim>\<open>for (;;)\<close>. Nothing bounds the number of records the
  native layer hands out, so the loop is a partial function: \<open>None\<close> is a call that
  does not return. A returned triple is the returned entry (\<open>None\<close> for \<^verbatim>\<open>NULL\<close>,
  otherwise \<^verbatim>\<open>d->dir\<close> as the caller finds it), the iterator and the state.
\<close>

partial_function (option) win_readdir_loop ::
  "'h env \<Rightarrow> DWORD \<Rightarrow> WIN_DIR \<Rightarrow> 'h world \<Rightarrow> (win_dirent option \<times> WIN_DIR \<times> 'h world) option"
  where
  "win_readdir_loop E flags d w =
    (case (if state d > 0
           then (case FindNextFileW E (hFind d) (findFileData d) w of
                   ((ok, buf), w1) \<Rightarrow> (ok, d\<lparr>findFileData := buf\<rparr>, w1))
           else (True, d, w)) of
       (ok, d1, w1) \<Rightarrow>
        if \<not> ok then Some (None, d1\<lparr>state := - 1\<rparr>, w1)
        else
        (let d2 = d1\<lparr>state := state d1 + 1\<rparr>;
             name = cFileName (findFileData d2)
         in if wchar_at name 0 = of_char (CHR ''.'') \<and>
               (wchar_at name 1 = 0 \<or>
                (wchar_at name 1 = of_char (CHR ''.'') \<and> wchar_at name 2 = 0))
            then win_readdir_loop E flags d2 w1
            else (case wchar_to_cstr E flags name WIN_DEFAULT_ENCODING True w1 of
                    ((filename, failed), w2) \<Rightarrow>
                      (let d3 = d2\<lparr>dir := (dir d2)\<lparr>d_name := filename\<rparr>\<rparr>
                       in if filename \<noteq> None \<and> failed = Some 0
                          then (let d4 = d3\<lparr>dir := (dir d3)
                                     \<lparr>d_wname := Some name,
                                      d_isdir := (if dwFileAttributes (findFileData d3) AND
                                                      FILE_ATTRIBUTE_DIRECTORY \<noteq> 0
                                                  then 1 else 0)\<rparr>\<rparr>
                                in Some (Some (dir d4), d4, w2))
                          else win_readdir_loop E flags
                                 (if filename \<noteq> None
                                  then d3\<lparr>dir := (dir d3)\<lparr>d_name := None\<rparr>\<rparr> else d3) w2))))"

definition win_readdir ::
  "'h env \<Rightarrow> DWORD \<Rightarrow> WIN_DIR \<Rightarrow> 'h world \<Rightarrow> (win_dirent option \<times> WIN_DIR \<times> 'h world) option"
  where
  "win_readdir E flags d w =
    (if state d = - 1 then Some (None, d, w)
     else win_readdir_loop E flags
            (if d_name (dir d) \<noteq> None then d\<lparr>dir := (dir d)\<lparr>d_name := None\<rparr>\<rparr> else d) w)"

section \<open>Notions the properties are stated with\<close>

text \<open>The codepage \<^verbatim>\<open>c2w\<close> uses for an attempt, and the codepage the options stand
  for, which \<^verbatim>\<open>wchar_to_cstr\<close> takes for the value -1.\<close>

definition attempt_codepage :: "'h env \<Rightarrow> DWORD \<Rightarrow> int \<Rightarrow> int" where
  "attempt_codepage E flags try_no =
    (if try_no = (if flags AND OPT_UTF8 E \<noteq> 0 then 0 else 1) then CP_UTF8
     else if flags AND OPT_OEM E \<noteq> 0 then CP_OEMCP else CP_ACP)"

definition default_codepage :: "'h env \<Rightarrow> DWORD \<Rightarrow> int" where
  "default_codepage E flags =
    (if flags AND OPT_UTF8 E \<noteq> 0 then CP_UTF8
     else if flags AND OPT_OEM E \<noteq> 0 then CP_OEMCP else CP_ACP)"

text \<open>
  A narrow string is representable without loss in a codepage when the native layer
  converts it strictly to a wide string, fills the buffer with it, and converts that
  wide string back to the same narrow string without using the default character.
\<close>

definition representable_without_loss :: "'h env \<Rightarrow> int \<Rightarrow> cstring \<Rightarrow> 'h world \<Rightarrow> bool" where
  "representable_without_loss E cp s w =
    (case MultiByteToWideChar E cp MB_ERR_INVALID_CHARS s 0 w of
       ((n, _), w1) \<Rightarrow>
         n \<noteq> 0 \<and>
         (case MultiByteToWideChar E cp 0 s n w1 of
            ((_, wstr), w2) \<Rightarrow>
              (case WideCharToMultiByte E cp wstr 0 False w2 of
                 ((m, _, _), w3) \<Rightarrow>
                   m \<noteq> 0 \<and>
                   (case WideCharToMultiByte E cp wstr m (cp \<noteq> CP_UTF8) w3 of
                      ((_, s', used), w4) \<Rightarrow> s' = s \<and> (cp = CP_UTF8 \<or> \<not> used)))))"

text \<open>The native calls made between a state and a later one.\<close>

definition calls_after :: "'h world \<Rightarrow> 'h world \<Rightarrow> call list" where
  "calls_after w w' = drop (length (trace w)) (trace w')"

text \<open>The first native call after the state \<open>w\<close> is the size query by which \<^verbatim>\<open>c2w\<close>
  starts converting \<open>path\<close> with attempt 1.\<close>

definition second_attempt_follows ::
  "'h env \<Rightarrow> DWORD \<Rightarrow> cstring \<Rightarrow> 'h world \<Rightarrow> 'h world \<Rightarrow> bool" where
  "second_attempt_follows E flags path w wfin =
    (take 1 (calls_after w wfin) =
       [MultiByteToWideChar_call (attempt_codepage E flags 1) MB_ERR_INVALID_CHARS path 0])"

text \<open>The second iteration of \<^verbatim>\<open>win_fopen_ex\<close>, entered with \<open>fd\<close> still \<^verbatim>\<open>NULL\<close>: the
  path is converted with attempt 1 and, if it converts, opened by \<^verbatim>\<open>_wfsopen\<close> with the
  mode and the sharing flag of the call; the result is what that open returns, and
  \<^verbatim>\<open>NULL\<close> if the path does not convert.\<close>

definition fopen_second_iteration ::
  "'h env \<Rightarrow> DWORD \<Rightarrow> cstring \<Rightarrow> wstring \<Rightarrow> int \<Rightarrow> 'h world \<Rightarrow> FILE option \<times> 'h world" where
  "fopen_second_iteration E flags path wmode exclusive w =
    (case c2w E flags path 1 w of
       (None, w3) \<Rightarrow> (None, w3)
     | (Some wpath, w3) \<Rightarrow>
         wfsopen E wpath wmode (if exclusive \<noteq> 0 then SH_DENYWR else SH_DENYNO) w3)"

text \<open>One attempt of the probe: the descriptor when the path converts with attempt \<open>i\<close>
  and the read-only open that denies writers succeeds, and the state after the open.\<close>

definition probe :: "'h env \<Rightarrow> DWORD \<Rightarrow> cstring \<Rightarrow> int \<Rightarrow> 'h world \<Rightarrow> int option \<times> 'h world" where
  "probe E flags path i w =
    (case c2w E flags path i w of
       (None, w1) \<Rightarrow> (None, w1)
     | (Some wpath, w1) \<Rightarrow>
         (case wsopen E wpath (or O_RDONLY O_BINARY) SH_DENYWR 0 w1 of
            (fd, w2) \<Rightarrow> (if fd \<ge> 0 then Some fd else None, w2)))"

text \<open>The listing pattern \<^verbatim>\<open>win_opendir\<close> composes: the directory path and \<^verbatim>\<open>\*\<close>.\<close>

definition listing_pattern :: "cstring \<Rightarrow> cstring" where
  "listing_pattern dir_path = dir_path @ [CHR 0x5C, CHR ''*'']"

text \<open>
  The attempt of \<^verbatim>\<open>win_opendir\<close> with the secondary codepage, made with the record
  buffer \<open>buf\<close>: the pattern is converted with attempt 1 and, if it converts,
  \<^verbatim>\<open>FindFirstFileW\<close> is called on it; the result is the handle and the record that call
  leaves, and the invalid handle with the buffer as it was if the pattern does not
  convert.
\<close>

definition opendir_second_attempt ::
  "'h env \<Rightarrow> DWORD \<Rightarrow> cstring \<Rightarrow> WIN32_FIND_DATAW \<Rightarrow> 'h world
     \<Rightarrow> (HANDLE \<times> WIN32_FIND_DATAW) \<times> 'h world" where
  "opendir_second_attempt E flags path buf w =
    (case c2w E flags path 1 w of
       (Some wp, w3) \<Rightarrow> FindFirstFileW E wp buf w3
     | (None, w3) \<Rightarrow> ((INVALID_HANDLE_VALUE, buf), w3))"

text \<open>
  What \<^verbatim>\<open>win_opendir\<close> returns when its attempts have left the handle \<open>h\<close> and the
  record \<open>buf\<close> in the state \<open>w\<close>: \<^verbatim>\<open>NULL\<close> with \<open>errno = EACCES\<close> for the invalid handle
  with the last error \<open>ERROR_ACCESS_DENIED\<close>, and otherwise an iterator, in the state -1
  for the invalid handle and 0 for a valid one, with \<open>errno\<close> set from the last error.
\<close>

definition opendir_result ::
  "HANDLE \<Rightarrow> WIN32_FIND_DATAW \<Rightarrow> 'h world \<Rightarrow> WIN_DIR option \<times> 'h world" where
  "opendir_result h buf w =
    (if h = INVALID_HANDLE_VALUE \<and> last_error w = ERROR_ACCESS_DENIED
     then (None, w\<lparr>errno := EACCES\<rparr>)
     else (Some \<lparr>findFileData = buf, hFind = h,
                 dir = \<lparr>d_name = None, d_wname = None, d_isdir = 0\<rparr>,
                 state = (if h = INVALID_HANDLE_VALUE then - 1 else 0)\<rparr>,
           w\<lparr>errno := convert_last_error_to_errno w\<rparr>))"





text \<open>The result of the call that follows \<open>n\<close> calls of \<^verbatim>\<open>win_readdir\<close> on the same
  iterator.\<close>

fun win_readdir_n ::
  "nat \<Rightarrow> 'h env \<Rightarrow> DWORD \<Rightarrow> WIN_DIR \<Rightarrow> 'h world
     \<Rightarrow> (win_dirent option \<times> WIN_DIR \<times> 'h world) option" where
  "win_readdir_n 0 E flags d w = win_readdir E flags d w"
| "win_readdir_n (Suc n) E flags d w =
     (case win_readdir E flags d w of
        None \<Rightarrow> None
      | Some (entry, d', w') \<Rightarrow> win_readdir_n n E flags d' w')"

text \<open>What a returned call of \<^verbatim>\<open>win_readdir\<close> leaves: after \<^verbatim>\<open>NULL\<close> the state -1;
  after an entry, the entry is \<^verbatim>\<open>d->dir\<close>, its wide name is the name of the current
  record, which is neither \<^verbatim>\<open>.\<close> nor \<^verbatim>\<open>..\<close>, and its narrow name is what
  \<^verbatim>\<open>wchar_to_cstr\<close> made of that name, with 0 in \<^verbatim>\<open>failed\<close>.\<close>

definition readdir_post ::
  "'h env \<Rightarrow> DWORD \<Rightarrow> (win_dirent option \<times> WIN_DIR \<times> 'h world) \<Rightarrow> bool" where
  "readdir_post E flags y =
    (case y of
       (None, d', w') \<Rightarrow> state d' = - 1
     | (Some entry, d', w') \<Rightarrow>
         entry = dir d' \<and>
         d_wname entry = Some (cFileName (findFileData d')) \<and>
         cFileName (findFileData d') \<noteq> wide ''.'' \<and>
         cFileName (findFileData d') \<noteq> wide ''..'' \<and>
         (\<exists>w1. wchar_to_cstr E flags (cFileName (findFileData d')) WIN_DEFAULT_ENCODING True w1
                 = ((d_name entry, Some 0), w')))"

section \<open>The translation table as the specification words it\<close>

text \<open>The families of native error codes the specification names, and the table it
  gives for them: a family goes to one portable code, the range of device and media
  access codes to \<open>EACCES\<close>, everything else to \<open>EINVAL\<close>.\<close>

definition not_found_family :: "DWORD set" where
  "not_found_family = {ERROR_FILE_NOT_FOUND, ERROR_PATH_NOT_FOUND, ERROR_INVALID_DRIVE,
     ERROR_BAD_NETPATH, ERROR_BAD_PATHNAME, ERROR_FILENAME_EXCED_RANGE}"

definition access_denied_family :: "DWORD set" where
  "access_denied_family = {ERROR_ACCESS_DENIED, ERROR_SHARING_VIOLATION,
     ERROR_NETWORK_ACCESS_DENIED, ERROR_FAIL_I24, ERROR_SEEK_ON_DEVICE,
     ERROR_LOCK_VIOLATION, ERROR_DRIVE_LOCKED, ERROR_NOT_LOCKED, ERROR_LOCK_FAILED}"

definition out_of_memory_family :: "DWORD set" where
  "out_of_memory_family = {ERROR_NOT_ENOUGH_MEMORY, ERROR_INVALID_BLOCK, ERROR_NOT_ENOUGH_QUOTA}"

definition invalid_parameter_family :: "DWORD set" where
  "invalid_parameter_family = {ERROR_INVALID_ACCESS, ERROR_INVALID_DATA, ERROR_INVALID_PARAMETER}"

definition broken_pipe_family :: "DWORD set" where
  "broken_pipe_family = {ERROR_BROKEN_PIPE, ERROR_NO_DATA}"

definition device_media_access_range :: "DWORD set" where
  "device_media_access_range = {c. MIN_EACCES_RANGE \<le> c \<and> c \<le> MAX_EACCES_RANGE}"

definition translation_table :: "DWORD \<Rightarrow> int" where
  "translation_table c =
    (if c \<in> not_found_family then ENOENT
     else if c = ERROR_TOO_MANY_OPEN_FILES then EMFILE
     else if c \<in> access_denied_family then EACCES
     else if c = ERROR_INVALID_HANDLE then EBADF
     else if c \<in> out_of_memory_family then ENOMEM
     else if c \<in> invalid_parameter_family then EINVAL
     else if c \<in> broken_pipe_family then EPIPE
     else if c = ERROR_DISK_FULL then ENOSPC
     else if c = ERROR_ALREADY_EXISTS then EEXIST
     else if c = ERROR_NESTING_NOT_ALLOWED then EAGAIN
     else if c \<in> device_media_access_range then EACCES
     else EINVAL)"

section \<open>A small native layer for the examples\<close>

text \<open>
  A native layer to run the program on. Its UTF-8 codepage accepts ASCII only and its
  other codepages map a byte to the character of the same number, except the byte 255,
  which is invalid; characters from 255 on have no byte and become \<^verbatim>\<open>?\<close>. There are
  the files \<^verbatim>\<open>a.txt\<close>, \<^verbatim>\<open>caf\<close> followed by the character 233, and \<^verbatim>\<open>locked.txt\<close>
  (which another process holds), the directory \<^verbatim>\<open>dir\<close>, the empty directories
  \<^verbatim>\<open>empty\<close> and \<^verbatim>\<open>caf\<close> followed by the character 233, and the directory \<^verbatim>\<open>secret\<close>
  that may not be listed. The hidden state is the list of records the open listing
  still has to hand out.
\<close>

definition rec_of :: "DWORD \<Rightarrow> string \<Rightarrow> WIN32_FIND_DATAW" where
  "rec_of attrs name = \<lparr>dwFileAttributes = attrs, cFileName = wide name\<rparr>"

definition demo_MultiByteToWideChar ::
  "int \<Rightarrow> DWORD \<Rightarrow> cstring \<Rightarrow> nat \<Rightarrow> 'h world \<Rightarrow> (nat \<times> wstring) \<times> 'h world" where
  "demo_MultiByteToWideChar cp fl str cch w =
    (if (if cp = CP_UTF8 then list_ex (\<lambda>c. (128::nat) \<le> of_char c) str
         else list_ex (\<lambda>c. of_char c = (255::nat)) str)
     then ((0, []), w\<lparr>last_error := 1113\<rparr>)
     else if cch = 0 then ((length str + 1, []), w)
     else if cch < length str + 1 then ((0, []), w\<lparr>last_error := 122\<rparr>)
     else ((length str + 1, map of_char str), w))"

definition demo_WideCharToMultiByte ::
  "int \<Rightarrow> wstring \<Rightarrow> nat \<Rightarrow> bool \<Rightarrow> 'h world \<Rightarrow> (nat \<times> cstring \<times> bool) \<times> 'h world" where
  "demo_WideCharToMultiByte cp wstr cb used w =
    (if cp = CP_UTF8 \<and> (used \<or> list_ex (\<lambda>c. 128 \<le> c) wstr)
     then ((0, [], False), w\<lparr>last_error := 87\<rparr>)
     else if cb = 0 then ((length wstr + 1, [], False), w)
     else if cb < length wstr + 1 then ((0, [], False), w\<lparr>last_error := 122\<rparr>)
     else ((length wstr + 1,
            map (\<lambda>c. if c < 255 then char_of (unat c) else CHR ''?'') wstr,
            list_ex (\<lambda>c. 255 \<le> c) wstr), w))"

definition demo_wfsopen ::
  "wstring \<Rightarrow> wstring \<Rightarrow> int \<Rightarrow> 'h world \<Rightarrow> FILE option \<times> 'h world" where
  "demo_wfsopen wpath wmode shflag w =
    (if wpath = wide ''a.txt'' \<or> wpath = wide ''caf'' @ [233] then (Some 3, w)
     else if wpath = wide ''locked.txt'' then (None, w\<lparr>errno := EACCES\<rparr>)
     else (None, w\<lparr>errno := ENOENT\<rparr>))"

definition demo_wsopen ::
  "wstring \<Rightarrow> int \<Rightarrow> int \<Rightarrow> int \<Rightarrow> 'h world \<Rightarrow> int \<times> 'h world" where
  "demo_wsopen wpath oflag shflag pmode w =
    (if wpath = wide ''a.txt'' \<or> wpath = wide ''caf'' @ [233] then (3, w)
     else if wpath = wide ''locked.txt'' then (- 1, w\<lparr>errno := EACCES\<rparr>)
     else (- 1, w\<lparr>errno := ENOENT\<rparr>))"

definition demo_FindFirstFileW ::
  "wstring \<Rightarrow> WIN32_FIND_DATAW \<Rightarrow> WIN32_FIND_DATAW list world
     \<Rightarrow> (HANDLE \<times> WIN32_FIND_DATAW) \<times> WIN32_FIND_DATAW list world" where
  "demo_FindFirstFileW wpath buf w =
    (if wpath = wide ''secret'' @ [92, 42]
     then ((INVALID_HANDLE_VALUE, buf), w\<lparr>last_error := ERROR_ACCESS_DENIED\<rparr>)
     else if wpath = wide ''dir'' @ [92, 42]
     then ((1, rec_of 16 ''.''),
           w\<lparr>hidden := [rec_of 16 ''..'', rec_of 32 ''a.txt'', rec_of 16 ''sub'']\<rparr>)
     else if wpath = wide ''empty'' @ [92, 42]
     then ((2, rec_of 16 ''.''), w\<lparr>hidden := [rec_of 16 ''..'']\<rparr>)
     else if wpath = wide ''caf'' @ [233, 92, 42]
     then ((3, rec_of 16 ''.''), w\<lparr>hidden := [rec_of 16 ''..'']\<rparr>)
     else ((INVALID_HANDLE_VALUE, buf), w\<lparr>last_error := ERROR_PATH_NOT_FOUND\<rparr>))"

definition demo_FindNextFileW ::
  "HANDLE \<Rightarrow> WIN32_FIND_DATAW \<Rightarrow> WIN32_FIND_DATAW list world
     \<Rightarrow> (bool \<times> WIN32_FIND_DATAW) \<times> WIN32_FIND_DATAW list world" where
  "demo_FindNextFileW h buf w =
    (case hidden w of
       [] \<Rightarrow> ((False, buf), w\<lparr>last_error := 18\<rparr>)
     | r # rs \<Rightarrow> ((True, r), w\<lparr>hidden := rs\<rparr>))"

definition demo_env :: "WIN32_FIND_DATAW list env" where
  "demo_env =
    \<lparr>OPT_UTF8 = 0x10000000, OPT_OEM = 0x40000000,
     SYS_PATH_SEPARATOR = 92, IS_PATH_SEPARATOR_W = (\<lambda>c. c = 92 \<or> c = 47),
     sizeof_WIN_DIR = 640,
     n_MultiByteToWideChar = demo_MultiByteToWideChar,
     n_WideCharToMultiByte = demo_WideCharToMultiByte,
     n_wfsopen = demo_wfsopen, n_wsopen = demo_wsopen,
     n_close = (\<lambda>fd w. (0, w)),
     n_FindFirstFileW = demo_FindFirstFileW,
     n_FindNextFileW = demo_FindNextFileW,
     n_FindClose = (\<lambda>h w. (True, w\<lparr>hidden := []\<rparr>)),
     n_malloc = (\<lambda>n w. (True, w))\<rparr>"

definition demo_world :: "WIN32_FIND_DATAW list world" where
  "demo_world = \<lparr>errno = 0, last_error = 0, hidden = [], trace = []\<rparr>"

text \<open>The iterator \<^verbatim>\<open>win_opendir\<close> returns for the directory \<^verbatim>\<open>dir\<close> with the
  state of the native layer then, and the iterator at the last record of the
  listing.\<close>

definition demo_iterator :: WIN_DIR where
  "demo_iterator =
     \<lparr>findFileData = rec_of 16 ''.'', hFind = 1,
      dir = \<lparr>d_name = None, d_wname = None, d_isdir = 0\<rparr>, state = 0\<rparr>"

definition demo_listing :: "WIN32_FIND_DATAW list world" where
  "demo_listing =
     \<lparr>errno = 0, last_error = 0,
      hidden = [rec_of 16 ''..'', rec_of 32 ''a.txt'', rec_of 16 ''sub''], trace = []\<rparr>"

definition demo_iterator_last :: WIN_DIR where
  "demo_iterator_last =
     \<lparr>findFileData = rec_of 16 ''sub'', hFind = 1,
      dir = \<lparr>d_name = Some ''sub'', d_wname = Some (wide ''sub''), d_isdir = 1\<rparr>,
      state = 4\<rparr>"




section \<open>Properties\<close>

lemmas winerror_defs =
  NO_ERROR_def ERROR_FILE_NOT_FOUND_def ERROR_PATH_NOT_FOUND_def
  ERROR_TOO_MANY_OPEN_FILES_def ERROR_ACCESS_DENIED_def ERROR_INVALID_HANDLE_def
  ERROR_NOT_ENOUGH_MEMORY_def ERROR_INVALID_BLOCK_def ERROR_INVALID_ACCESS_def
  ERROR_INVALID_DATA_def ERROR_INVALID_DRIVE_def ERROR_WRITE_PROTECT_def
  ERROR_SHARING_VIOLATION_def ERROR_LOCK_VIOLATION_def ERROR_SHARING_BUFFER_EXCEEDED_def
  ERROR_BAD_NETPATH_def ERROR_NETWORK_ACCESS_DENIED_def ERROR_FAIL_I24_def
  ERROR_INVALID_PARAMETER_def ERROR_DRIVE_LOCKED_def ERROR_BROKEN_PIPE_def
  ERROR_DISK_FULL_def ERROR_SEEK_ON_DEVICE_def ERROR_NOT_LOCKED_def
  ERROR_BAD_PATHNAME_def ERROR_LOCK_FAILED_def ERROR_ALREADY_EXISTS_def
  ERROR_FILENAME_EXCED_RANGE_def ERROR_NESTING_NOT_ALLOWED_def ERROR_NO_DATA_def
  ERROR_NOT_ENOUGH_QUOTA_def MIN_EACCES_RANGE_def MAX_EACCES_RANGE_def

lemmas errno_defs =
  ENOENT_def EBADF_def EAGAIN_def ENOMEM_def EACCES_def EEXIST_def EINVAL_def
  EMFILE_def ENOSPC_def EPIPE_def

lemmas family_defs =
  not_found_family_def access_denied_family_def out_of_memory_family_def
  invalid_parameter_family_def broken_pipe_family_def device_media_access_range_def

lemmas demo_defs = demo_env_def demo_world_def demo_MultiByteToWideChar_def
  demo_WideCharToMultiByte_def demo_wfsopen_def demo_wsopen_def demo_FindFirstFileW_def
  demo_FindNextFileW_def rec_of_def wide_def char_of_def bit_0

lemmas native_defs = native_call_def MultiByteToWideChar_def WideCharToMultiByte_def
  wfsopen_def wsopen_def close_fd_def FindFirstFileW_def FindNextFileW_def FindClose_def
  malloc_def

lemmas const_defs = CP_ACP_def CP_OEMCP_def CP_UTF8_def MB_ERR_INVALID_CHARS_def
  INVALID_HANDLE_VALUE_def FILE_ATTRIBUTE_DIRECTORY_def SH_DENYWR_def SH_DENYNO_def
  O_RDONLY_def O_BINARY_def WIN_DEFAULT_ENCODING_def

declare win_fopen_ex_loop.simps [simp del]
declare can_open_exclusive_loop.simps [simp del]

subsection \<open>Codepage converter\<close>

lemma c2w_codepage: "c2w E flags str try_no w = cstr_to_wchar E str (attempt_codepage E flags try_no) w"
  by (simp add: c2w_def attempt_codepage_def)

lemma attempt_codepage_0: "attempt_codepage E flags 0 = default_codepage E flags"
  by (simp add: attempt_codepage_def default_codepage_def)


lemma default_codepage_not_sentinel: "default_codepage E flags \<noteq> - 1"
  by (simp add: default_codepage_def CP_UTF8_def CP_OEMCP_def CP_ACP_def)

lemma wchar_to_cstr_default:
  "wchar_to_cstr E flags wstr WIN_DEFAULT_ENCODING failed w =
   wchar_to_cstr E flags wstr (default_codepage E flags) failed w"
  using default_codepage_not_sentinel [of E flags]
  by (simp add: wchar_to_cstr_def WIN_DEFAULT_ENCODING_def default_codepage_def)

lemma round_trip_codepage:
  assumes "representable_without_loss E cp s w" and "cp \<noteq> - 1"
  shows "case cstr_to_wchar E s cp w of
      (None, w1) \<Rightarrow> False
    | (Some wstr, w1) \<Rightarrow> fst (wchar_to_cstr E flags wstr cp True w1) = (Some s, Some 0)"
proof -
  obtain n b0 w1 where c1: "MultiByteToWideChar E cp MB_ERR_INVALID_CHARS s 0 w = ((n, b0), w1)"
    by (metis prod.exhaust)
  obtain k wstr w2 where c2: "MultiByteToWideChar E cp 0 s n w1 = ((k, wstr), w2)"
    by (metis prod.exhaust)
  obtain m b1 u1 w3 where c3: "WideCharToMultiByte E cp wstr 0 False w2 = ((m, b1, u1), w3)"
    by (metis prod.exhaust)
  obtain j s' used w4 where
    c4: "WideCharToMultiByte E cp wstr m (cp \<noteq> CP_UTF8) w3 = ((j, s', used), w4)"
    by (metis prod.exhaust)
  from assms(1) c1 c2 c3 c4 have r: "n \<noteq> 0" "m \<noteq> 0" "s' = s" "cp = CP_UTF8 \<or> \<not> used"
    by (simp_all add: representable_without_loss_def)
  have conv: "cstr_to_wchar E s cp w = (Some wstr, w2)"
    using c1 c2 r(1) by (simp add: cstr_to_wchar_def)
  have narrow: "wchar_to_cstr E flags wstr cp True w2 = ((Some s, Some 0), w4)"
    using c3 c4 r assms(2) by (auto simp: wchar_to_cstr_def)
  show ?thesis
    by (simp add: conv narrow)
qed

text \<open>
  C1. A narrow string that is representable without loss in the codepage of the options
  is converted by \<^verbatim>\<open>c2w\<close> with attempt 0 to a wide string, and \<^verbatim>\<open>wchar_to_cstr\<close> with
  the default codepage converts that wide string back to the same narrow string, with 0
  stored in the flag \<^verbatim>\<open>failed\<close>.
\<close>

theorem c2w_wchar_to_cstr_round_trip:
  "representable_without_loss E (default_codepage E flags) s w \<Longrightarrow>
   (case c2w E flags s 0 w of
      (None, w1) \<Rightarrow> False
    | (Some wstr, w1) \<Rightarrow>
        fst (wchar_to_cstr E flags wstr WIN_DEFAULT_ENCODING True w1) = (Some s, Some 0))"
  unfolding c2w_codepage attempt_codepage_0 wchar_to_cstr_default
  by (rule round_trip_codepage [OF _ default_codepage_not_sentinel])

theorem c2w_wchar_to_cstr_round_trip_witness:
  "representable_without_loss demo_env (default_codepage demo_env 0)
     (''caf'' @ [CHR 0xE9]) demo_world \<and>
   (case c2w demo_env 0 (''caf'' @ [CHR 0xE9]) 0 demo_world of
      (None, w1) \<Rightarrow> False
    | (Some wstr, w1) \<Rightarrow>
        fst (wchar_to_cstr demo_env 0 wstr WIN_DEFAULT_ENCODING True w1)
          = (Some (''caf'' @ [CHR 0xE9]), Some 0))"
proof -
  have h: "representable_without_loss demo_env (default_codepage demo_env 0)
     (''caf'' @ [CHR 0xE9]) demo_world"
    by (simp add: representable_without_loss_def default_codepage_def demo_defs native_defs
        const_defs)
  from c2w_wchar_to_cstr_round_trip [OF h] h show ?thesis
    by blast
qed

subsection \<open>Exclusive file accessor\<close>

lemma native_call_trace: "native_call c f w = (r, w') \<Longrightarrow> trace w' = trace w @ [c]"
  by (auto simp: native_call_def split: prod.splits)

lemma cstr_to_wchar_trace:
  assumes "cstr_to_wchar E str cp w = (r, w')"
  shows "\<exists>rest. trace w' = trace w @ MultiByteToWideChar_call cp MB_ERR_INVALID_CHARS str 0 # rest"
proof -
  obtain n b w1 where c1: "MultiByteToWideChar E cp MB_ERR_INVALID_CHARS str 0 w = ((n, b), w1)"
    by (metis prod.exhaust)
  then have t1: "trace w1 = trace w @ [MultiByteToWideChar_call cp MB_ERR_INVALID_CHARS str 0]"
    by (simp add: MultiByteToWideChar_def native_call_trace)
  show ?thesis
  proof (cases "n = 0")
    case True
    with assms c1 have "w' = w1" by (simp add: cstr_to_wchar_def)
    with t1 show ?thesis by simp
  next
    case False
    obtain k buf w2 where c2: "MultiByteToWideChar E cp 0 str n w1 = ((k, buf), w2)"
      by (metis prod.exhaust)
    then have "trace w2 = trace w1 @ [MultiByteToWideChar_call cp 0 str n]"
      by (simp add: MultiByteToWideChar_def native_call_trace)
    moreover from assms c1 c2 False have "w' = w2" by (simp add: cstr_to_wchar_def)
    ultimately show ?thesis using t1 by simp
  qed
qed

lemma c2w_trace:
  "c2w E flags str try_no w = (r, w') \<Longrightarrow>
   \<exists>rest. trace w' = trace w @
     MultiByteToWideChar_call (attempt_codepage E flags try_no) MB_ERR_INVALID_CHARS str 0 # rest"
  unfolding c2w_codepage by (rule cstr_to_wchar_trace)

lemma second_attempt_followsI:
  "trace wfin = trace w @
     MultiByteToWideChar_call (attempt_codepage E flags 1) MB_ERR_INVALID_CHARS path 0 # rest
   \<Longrightarrow> second_attempt_follows E flags path w wfin"
  by (simp add: second_attempt_follows_def calls_after_def)

lemma not_second_attempt_follows_same: "\<not> second_attempt_follows E flags path w w"
  by (simp add: second_attempt_follows_def calls_after_def)

lemma win_fopen_ex_loop_2: "win_fopen_ex_loop E flags path wmode exclusive 2 fd w = (fd, w)"
  by (simp add: win_fopen_ex_loop.simps)

lemma win_fopen_ex_loop_1:
  "win_fopen_ex_loop E flags path wmode exclusive 1 fd w =
    (case c2w E flags path 1 w of
       (None, w1) \<Rightarrow> (fd, w1)
     | (Some wpath, w1) \<Rightarrow>
         wfsopen E wpath wmode (if exclusive \<noteq> 0 then SH_DENYWR else SH_DENYNO) w1)"
  by (subst win_fopen_ex_loop.simps)
     (simp add: win_fopen_ex_loop_2 split: prod.splits option.splits)

lemma win_fopen_ex_loop_1_second:
  "win_fopen_ex_loop E flags path wmode exclusive 1 None w =
   fopen_second_iteration E flags path wmode exclusive w"
  by (simp add: win_fopen_ex_loop_1 fopen_second_iteration_def)

lemma win_fopen_ex_loop_0:
  "win_fopen_ex_loop E flags path wmode exclusive 0 fd w =
    (case c2w E flags path 0 w of
       (None, w1) \<Rightarrow> win_fopen_ex_loop E flags path wmode exclusive 1 fd w1
     | (Some wpath, w1) \<Rightarrow>
         (case wfsopen E wpath wmode (if exclusive \<noteq> 0 then SH_DENYWR else SH_DENYNO) w1 of
            (fd', w2) \<Rightarrow>
              if fd' \<noteq> None \<or> errno w2 \<noteq> ENOENT then (fd', w2)
              else win_fopen_ex_loop E flags path wmode exclusive 1 fd' w2))"
  by (subst win_fopen_ex_loop.simps) (simp split: prod.splits option.splits)

lemma win_fopen_ex_loop_1_trace:
  assumes "win_fopen_ex_loop E flags path wmode exclusive 1 fd w = (r, wfin)"
  shows "second_attempt_follows E flags path w wfin"
proof -
  obtain wp w1 where c: "c2w E flags path 1 w = (wp, w1)"
    by (metis prod.exhaust)
  from c2w_trace [OF c] obtain rest where
    t1: "trace w1 = trace w @
      MultiByteToWideChar_call (attempt_codepage E flags 1) MB_ERR_INVALID_CHARS path 0 # rest"
    by blast
  show ?thesis
  proof (cases wp)
    case None
    with assms c have "wfin = w1" by (simp add: win_fopen_ex_loop_1)
    with t1 show ?thesis by (auto intro: second_attempt_followsI)
  next
    case (Some wpath)
    with assms c have
      o: "wfsopen E wpath wmode (if exclusive \<noteq> 0 then SH_DENYWR else SH_DENYNO) w1 = (r, wfin)"
      by (simp add: win_fopen_ex_loop_1)
    then have "trace wfin = trace w1 @
        [wfsopen_call wpath wmode (if exclusive \<noteq> 0 then SH_DENYWR else SH_DENYNO)]"
      unfolding wfsopen_def by (rule native_call_trace)
    with t1 show ?thesis by (auto intro: second_attempt_followsI)
  qed
qed

text \<open>
  C2. Once the mode is converted, \<^verbatim>\<open>win_fopen_ex\<close> returns, and after the first
  iteration (the conversion of the path with attempt 0 and, if it converts, the native
  open) the second iteration with attempt 1 follows if and only if the conversion
  returned \<^verbatim>\<open>NULL\<close> or the open failed with \<open>errno = ENOENT\<close>. When the open succeeded
  or failed with another error, the function returns what the first open returned and
  the state that open left: no further call is made. When the second iteration
  follows, the function returns what it returns: the result of the native open of the
  path converted with attempt 1, or \<^verbatim>\<open>NULL\<close> if the path does not convert then either.
\<close>

theorem win_fopen_ex_second_attempt:
  assumes "utf8_to_wchar E mode w = (Some wmode, w0)"
  shows "\<exists>fd wfin. win_fopen_ex E flags path mode exclusive w = Some (fd, wfin) \<and>
     (case c2w E flags path 0 w0 of
        (None, w1) \<Rightarrow>
          second_attempt_follows E flags path w1 wfin \<and>
          (fd, wfin) = fopen_second_iteration E flags path wmode exclusive w1
      | (Some wpath, w1) \<Rightarrow>
          (case wfsopen E wpath wmode (if exclusive \<noteq> 0 then SH_DENYWR else SH_DENYNO) w1 of
             (fd0, w2) \<Rightarrow>
               (second_attempt_follows E flags path w2 wfin \<longleftrightarrow> fd0 = None \<and> errno w2 = ENOENT) \<and>
               (fd0 \<noteq> None \<or> errno w2 \<noteq> ENOENT \<longrightarrow> fd = fd0 \<and> wfin = w2) \<and>
               (fd0 = None \<and> errno w2 = ENOENT \<longrightarrow>
                  (fd, wfin) = fopen_second_iteration E flags path wmode exclusive w2)))"
proof -
  obtain fd wfin where res: "win_fopen_ex_loop E flags path wmode exclusive 0 None w0 = (fd, wfin)"
    by (metis prod.exhaust)
  with assms have r: "win_fopen_ex E flags path mode exclusive w = Some (fd, wfin)"
    by (simp add: win_fopen_ex_def)
  obtain wp w1 where c: "c2w E flags path 0 w0 = (wp, w1)"
    by (metis prod.exhaust)
  show ?thesis
  proof (cases wp)
    case None
    with res c have l: "win_fopen_ex_loop E flags path wmode exclusive 1 None w1 = (fd, wfin)"
      by (simp add: win_fopen_ex_loop_0)
    then have "second_attempt_follows E flags path w1 wfin"
      by (rule win_fopen_ex_loop_1_trace)
    moreover from l have "(fd, wfin) = fopen_second_iteration E flags path wmode exclusive w1"
      by (simp add: win_fopen_ex_loop_1_second)
    ultimately show ?thesis using r c None
      by (intro exI [of _ fd] exI [of _ wfin]) simp
  next
    case (Some wpath)
    obtain fd0 w2 where
      o: "wfsopen E wpath wmode (if exclusive \<noteq> 0 then SH_DENYWR else SH_DENYNO) w1 = (fd0, w2)"
      by (metis prod.exhaust)
    show ?thesis
    proof (cases "fd0 = None \<and> errno w2 = ENOENT")
      case True
      with res c Some o have
        l: "win_fopen_ex_loop E flags path wmode exclusive 1 None w2 = (fd, wfin)"
        by (simp add: win_fopen_ex_loop_0)
      then have "second_attempt_follows E flags path w2 wfin"
        by (rule win_fopen_ex_loop_1_trace)
      moreover from l have "(fd, wfin) = fopen_second_iteration E flags path wmode exclusive w2"
        by (simp add: win_fopen_ex_loop_1_second)
      ultimately show ?thesis using r c Some o True
        by (intro exI [of _ fd] exI [of _ wfin]) simp
    next
      case False
      with res c Some o have "fd = fd0 \<and> wfin = w2"
        by (auto simp: win_fopen_ex_loop_0)
      with r c Some o False show ?thesis
        by (auto simp: not_second_attempt_follows_same)
    qed
  qed
qed

theorem win_fopen_ex_second_attempt_witness:
  "utf8_to_wchar demo_env ''rb'' demo_world
     = (Some (wide ''rb''), snd (utf8_to_wchar demo_env ''rb'' demo_world)) \<and>
   (\<exists>fd wfin.
      win_fopen_ex demo_env 0x10000000 (''caf'' @ [CHR 0xE9]) ''rb'' 1 demo_world
        = Some (fd, wfin) \<and>
      (case c2w demo_env 0x10000000 (''caf'' @ [CHR 0xE9]) 0
              (snd (utf8_to_wchar demo_env ''rb'' demo_world)) of
         (None, w1) \<Rightarrow>
           second_attempt_follows demo_env 0x10000000 (''caf'' @ [CHR 0xE9]) w1 wfin \<and>
           (fd, wfin) = fopen_second_iteration demo_env 0x10000000 (''caf'' @ [CHR 0xE9])
                          (wide ''rb'') 1 w1
       | (Some wpath, w1) \<Rightarrow>
           (case wfsopen demo_env wpath (wide ''rb'')
                   (if (1::int) \<noteq> 0 then SH_DENYWR else SH_DENYNO) w1 of
              (fd0, w2) \<Rightarrow>
                (second_attempt_follows demo_env 0x10000000 (''caf'' @ [CHR 0xE9]) w2 wfin
                   \<longleftrightarrow> fd0 = None \<and> errno w2 = ENOENT) \<and>
                (fd0 \<noteq> None \<or> errno w2 \<noteq> ENOENT \<longrightarrow> fd = fd0 \<and> wfin = w2) \<and>
                (fd0 = None \<and> errno w2 = ENOENT \<longrightarrow>
                   (fd, wfin) = fopen_second_iteration demo_env 0x10000000
                                  (''caf'' @ [CHR 0xE9]) (wide ''rb'') 1 w2)))) \<and>
   fst (c2w demo_env 0x10000000 (''caf'' @ [CHR 0xE9]) 0
          (snd (utf8_to_wchar demo_env ''rb'' demo_world))) = None \<and>
   map_option fst
     (win_fopen_ex demo_env 0x10000000 (''caf'' @ [CHR 0xE9]) ''rb'' 1 demo_world)
     = Some (Some 3) \<and>
   map_option (trace \<circ> snd)
     (win_fopen_ex demo_env 0x10000000 (''caf'' @ [CHR 0xE9]) ''rb'' 1 demo_world)
     = Some [MultiByteToWideChar_call CP_UTF8 MB_ERR_INVALID_CHARS ''rb'' 0,
             MultiByteToWideChar_call CP_UTF8 0 ''rb'' 3,
             MultiByteToWideChar_call CP_UTF8 MB_ERR_INVALID_CHARS (''caf'' @ [CHR 0xE9]) 0,
             MultiByteToWideChar_call CP_ACP MB_ERR_INVALID_CHARS (''caf'' @ [CHR 0xE9]) 0,
             MultiByteToWideChar_call CP_ACP 0 (''caf'' @ [CHR 0xE9]) 5,
             wfsopen_call (wide (''caf'' @ [CHR 0xE9])) (wide ''rb'') SH_DENYWR] \<and>
   map_option fst (win_fopen_ex demo_env 0x10000000 ''missing.txt'' ''rb'' 0 demo_world)
     = Some None \<and>
   map_option (trace \<circ> snd)
     (win_fopen_ex demo_env 0x10000000 ''missing.txt'' ''rb'' 0 demo_world)
     = Some [MultiByteToWideChar_call CP_UTF8 MB_ERR_INVALID_CHARS ''rb'' 0,
             MultiByteToWideChar_call CP_UTF8 0 ''rb'' 3,
             MultiByteToWideChar_call CP_UTF8 MB_ERR_INVALID_CHARS ''missing.txt'' 0,
             MultiByteToWideChar_call CP_UTF8 0 ''missing.txt'' 12,
             wfsopen_call (wide ''missing.txt'') (wide ''rb'') SH_DENYNO,
             MultiByteToWideChar_call CP_ACP MB_ERR_INVALID_CHARS ''missing.txt'' 0,
             MultiByteToWideChar_call CP_ACP 0 ''missing.txt'' 12,
             wfsopen_call (wide ''missing.txt'') (wide ''rb'') SH_DENYNO] \<and>
   map_option fst (win_fopen_ex demo_env 0x10000000 ''locked.txt'' ''rb'' 1 demo_world)
     = Some None \<and>
   map_option (trace \<circ> snd)
     (win_fopen_ex demo_env 0x10000000 ''locked.txt'' ''rb'' 1 demo_world)
     = Some [MultiByteToWideChar_call CP_UTF8 MB_ERR_INVALID_CHARS ''rb'' 0,
             MultiByteToWideChar_call CP_UTF8 0 ''rb'' 3,
             MultiByteToWideChar_call CP_UTF8 MB_ERR_INVALID_CHARS ''locked.txt'' 0,
             MultiByteToWideChar_call CP_UTF8 0 ''locked.txt'' 11,
             wfsopen_call (wide ''locked.txt'') (wide ''rb'') SH_DENYWR]"
proof -
  note ev = win_fopen_ex_def win_fopen_ex_loop_0 win_fopen_ex_loop_1 c2w_def
    utf8_to_wchar_def cstr_to_wchar_def demo_defs native_defs const_defs errno_defs
  have h: "utf8_to_wchar demo_env ''rb'' demo_world
     = (Some (wide ''rb''), snd (utf8_to_wchar demo_env ''rb'' demo_world))"
    by (simp add: utf8_to_wchar_def cstr_to_wchar_def demo_defs native_defs const_defs)
  have e0: "fst (c2w demo_env 0x10000000 (''caf'' @ [CHR 0xE9]) 0
          (snd (utf8_to_wchar demo_env ''rb'' demo_world))) = None"
    by (simp add: ev)
  have e1: "map_option fst
     (win_fopen_ex demo_env 0x10000000 (''caf'' @ [CHR 0xE9]) ''rb'' 1 demo_world)
     = Some (Some 3)"
    by (simp add: ev)
  have t1: "map_option (trace \<circ> snd)
     (win_fopen_ex demo_env 0x10000000 (''caf'' @ [CHR 0xE9]) ''rb'' 1 demo_world)
     = Some [MultiByteToWideChar_call CP_UTF8 MB_ERR_INVALID_CHARS ''rb'' 0,
             MultiByteToWideChar_call CP_UTF8 0 ''rb'' 3,
             MultiByteToWideChar_call CP_UTF8 MB_ERR_INVALID_CHARS (''caf'' @ [CHR 0xE9]) 0,
             MultiByteToWideChar_call CP_ACP MB_ERR_INVALID_CHARS (''caf'' @ [CHR 0xE9]) 0,
             MultiByteToWideChar_call CP_ACP 0 (''caf'' @ [CHR 0xE9]) 5,
             wfsopen_call (wide (''caf'' @ [CHR 0xE9])) (wide ''rb'') SH_DENYWR]"
    by (simp add: ev)
  have e2: "map_option fst
     (win_fopen_ex demo_env 0x10000000 ''missing.txt'' ''rb'' 0 demo_world) = Some None"
    by (simp add: ev)
  have t2: "map_option (trace \<circ> snd)
     (win_fopen_ex demo_env 0x10000000 ''missing.txt'' ''rb'' 0 demo_world)
     = Some [MultiByteToWideChar_call CP_UTF8 MB_ERR_INVALID_CHARS ''rb'' 0,
             MultiByteToWideChar_call CP_UTF8 0 ''rb'' 3,
             MultiByteToWideChar_call CP_UTF8 MB_ERR_INVALID_CHARS ''missing.txt'' 0,
             MultiByteToWideChar_call CP_UTF8 0 ''missing.txt'' 12,
             wfsopen_call (wide ''missing.txt'') (wide ''rb'') SH_DENYNO,
             MultiByteToWideChar_call CP_ACP MB_ERR_INVALID_CHARS ''missing.txt'' 0,
             MultiByteToWideChar_call CP_ACP 0 ''missing.txt'' 12,
             wfsopen_call (wide ''missing.txt'') (wide ''rb'') SH_DENYNO]"
    by (simp add: ev)
  have e3: "map_option fst
     (win_fopen_ex demo_env 0x10000000 ''locked.txt'' ''rb'' 1 demo_world) = Some None"
    by (simp add: ev)
  have t3: "map_option (trace \<circ> snd)
     (win_fopen_ex demo_env 0x10000000 ''locked.txt'' ''rb'' 1 demo_world)
     = Some [MultiByteToWideChar_call CP_UTF8 MB_ERR_INVALID_CHARS ''rb'' 0,
             MultiByteToWideChar_call CP_UTF8 0 ''rb'' 3,
             MultiByteToWideChar_call CP_UTF8 MB_ERR_INVALID_CHARS ''locked.txt'' 0,
             MultiByteToWideChar_call CP_UTF8 0 ''locked.txt'' 11,
             wfsopen_call (wide ''locked.txt'') (wide ''rb'') SH_DENYWR]"
    by (simp add: ev)
  from win_fopen_ex_second_attempt [OF h, of "0x10000000" "''caf'' @ [CHR 0xE9]" 1]
    h e0 e1 t1 e2 t2 e3 t3
  show ?thesis
    by blast
qed

lemma can_open_exclusive_loop_done:
  "\<not> (i < 2 \<and> res = 0) \<Longrightarrow> can_open_exclusive_loop E flags path i res w = (res, w)"
  by (subst can_open_exclusive_loop.simps) auto

lemma can_open_exclusive_loop_1:
  "can_open_exclusive_loop E flags path 1 0 w =
    (case probe E flags path 1 w of
       (Some fd, w2) \<Rightarrow> (1, snd (close_fd E fd w2))
     | (None, w2) \<Rightarrow> (0, w2))"
  by (subst can_open_exclusive_loop.simps)
     (simp add: probe_def can_open_exclusive_loop_done split: prod.splits option.splits)

lemma can_open_exclusive_loop_0:
  "can_open_exclusive_loop E flags path 0 0 w =
    (case probe E flags path 0 w of
       (Some fd, w1) \<Rightarrow> (1, snd (close_fd E fd w1))
     | (None, w1) \<Rightarrow> can_open_exclusive_loop E flags path 1 0 w1)"
  by (subst can_open_exclusive_loop.simps)
     (simp add: probe_def can_open_exclusive_loop_done split: prod.splits option.splits)

lemma close_fd_calls: "calls_after w (snd (close_fd E fd w)) = [close_call fd]"
proof -
  obtain r w' where c: "close_fd E fd w = (r, w')"
    by (metis prod.exhaust)
  then have "trace w' = trace w @ [close_call fd]"
    unfolding close_fd_def by (rule native_call_trace)
  with c show ?thesis by (simp add: calls_after_def)
qed

text \<open>
  C9. \<^verbatim>\<open>can_open_exclusive\<close> returns 1 if attempt 0 converts and opens, or if it does
  not and attempt 1 converts and opens, and 0 otherwise. After a successful open the
  only further native call is \<^verbatim>\<open>_close\<close> on the descriptor just opened; in particular
  attempt 1 is not made after a successful attempt 0.
\<close>

theorem can_open_exclusive_probe:
  "\<exists>res wfin. can_open_exclusive E flags path w = (res, wfin) \<and>
     (case probe E flags path 0 w of
        (Some fd, w1) \<Rightarrow>
          res = 1 \<and> wfin = snd (close_fd E fd w1) \<and> calls_after w1 wfin = [close_call fd]
      | (None, w1) \<Rightarrow>
          (case probe E flags path 1 w1 of
             (Some fd, w2) \<Rightarrow>
               res = 1 \<and> wfin = snd (close_fd E fd w2) \<and> calls_after w2 wfin = [close_call fd]
           | (None, w2) \<Rightarrow> res = 0 \<and> wfin = w2))"
proof -
  obtain r0 w1 where p0: "probe E flags path 0 w = (r0, w1)"
    by (metis prod.exhaust)
  obtain r1 w2 where p1: "probe E flags path 1 w1 = (r1, w2)"
    by (metis prod.exhaust)
  show ?thesis
  proof (cases r0)
    case (Some fd)
    with p0 show ?thesis
      by (simp add: can_open_exclusive_def can_open_exclusive_loop_0 close_fd_calls)
  next
    case None
    with p0 p1 show ?thesis
      by (cases r1)
         (simp_all add: can_open_exclusive_def can_open_exclusive_loop_0
            can_open_exclusive_loop_1 close_fd_calls)
  qed
qed

theorem can_open_exclusive_probe_witness:
  "(\<exists>res wfin. can_open_exclusive demo_env 0x10000000 (''caf'' @ [CHR 0xE9]) demo_world
       = (res, wfin) \<and>
     (case probe demo_env 0x10000000 (''caf'' @ [CHR 0xE9]) 0 demo_world of
        (Some fd, w1) \<Rightarrow>
          res = 1 \<and> wfin = snd (close_fd demo_env fd w1) \<and>
          calls_after w1 wfin = [close_call fd]
      | (None, w1) \<Rightarrow>
          (case probe demo_env 0x10000000 (''caf'' @ [CHR 0xE9]) 1 w1 of
             (Some fd, w2) \<Rightarrow>
               res = 1 \<and> wfin = snd (close_fd demo_env fd w2) \<and>
               calls_after w2 wfin = [close_call fd]
           | (None, w2) \<Rightarrow> res = 0 \<and> wfin = w2))) \<and>
   fst (probe demo_env 0x10000000 (''caf'' @ [CHR 0xE9]) 0 demo_world) = None \<and>
   fst (can_open_exclusive demo_env 0x10000000 (''caf'' @ [CHR 0xE9]) demo_world) = 1 \<and>
   fst (can_open_exclusive demo_env 0x10000000 ''a.txt'' demo_world) = 1 \<and>
   fst (can_open_exclusive demo_env 0x10000000 ''locked.txt'' demo_world) = 0"
proof -
  have e0: "fst (probe demo_env 0x10000000 (''caf'' @ [CHR 0xE9]) 0 demo_world) = None"
    by (simp add: probe_def c2w_def cstr_to_wchar_def demo_defs native_defs const_defs)
  have e1: "fst (can_open_exclusive demo_env 0x10000000 (''caf'' @ [CHR 0xE9]) demo_world) = 1"
    by (simp add: can_open_exclusive_def can_open_exclusive_loop_0 can_open_exclusive_loop_1
        probe_def c2w_def cstr_to_wchar_def demo_defs native_defs const_defs)
  have e2: "fst (can_open_exclusive demo_env 0x10000000 ''a.txt'' demo_world) = 1"
    by (simp add: can_open_exclusive_def can_open_exclusive_loop_0 can_open_exclusive_loop_1
        probe_def c2w_def cstr_to_wchar_def demo_defs native_defs const_defs)
  have e3: "fst (can_open_exclusive demo_env 0x10000000 ''locked.txt'' demo_world) = 0"
    by (simp add: can_open_exclusive_def can_open_exclusive_loop_0 can_open_exclusive_loop_1
        probe_def c2w_def cstr_to_wchar_def demo_defs native_defs const_defs)
  from can_open_exclusive_probe [of demo_env "0x10000000" "''caf'' @ [CHR 0xE9]" demo_world]
    e0 e1 e2 e3
  show ?thesis
    by blast
qed

subsection \<open>Error translator\<close>

text \<open>
  C4 (as the code has it). The translated code is a function of the last native error
  alone, whatever the rest of the state is: it is 0 for \<open>NO_ERROR\<close>, and for every other value it is what the table of the
  specification gives (the not-found family to \<open>ENOENT\<close>, too many open files to
  \<open>EMFILE\<close>, the access-denied, sharing and lock family to \<open>EACCES\<close>, invalid handle to
  \<open>EBADF\<close>, the out-of-memory family to \<open>ENOMEM\<close>, the invalid-parameter family to
  \<open>EINVAL\<close>, the broken-pipe family to \<open>EPIPE\<close>, disk full to \<open>ENOSPC\<close>, already exists
  to \<open>EEXIST\<close>, nesting not allowed to \<open>EAGAIN\<close>, the range from
  \<open>ERROR_WRITE_PROTECT\<close> to \<open>ERROR_SHARING_BUFFER_EXCEEDED\<close> to \<open>EACCES\<close>, and every
  other code to \<open>EINVAL\<close>).
\<close>

theorem convert_last_error_to_errno_table:
  "convert_last_error_to_errno w =
     (if last_error w = NO_ERROR then 0 else translation_table (last_error w)) \<and>
   convert_last_error_to_errno
       \<lparr>errno = e, last_error = last_error w, hidden = h, trace = t\<rparr>
     = convert_last_error_to_errno w"
proof -
  have table: "convert_last_error_to_errno v =
     (if last_error v = NO_ERROR then 0 else translation_table (last_error v))"
    for v :: "'c world"
    by (auto simp: convert_last_error_to_errno_def translation_table_def Let_def
        GetLastError_def family_defs winerror_defs)
  show ?thesis
    by (simp add: table [of w]
        table [of "\<lparr>errno = e, last_error = last_error w, hidden = h, trace = t\<rparr>"])
qed

text \<open>C4 as it was stated sends every code outside the families and the range to
  \<open>EINVAL\<close>; \<open>NO_ERROR\<close> is such a code, and the program returns 0 for it.\<close>

theorem convert_last_error_to_errno_no_error:
  "convert_last_error_to_errno \<lparr>errno = 0, last_error = NO_ERROR, hidden = (), trace = []\<rparr>
     \<noteq> translation_table NO_ERROR"
  by (simp add: convert_last_error_to_errno_def translation_table_def Let_def
      GetLastError_def family_defs winerror_defs errno_defs)

subsection \<open>Path composer\<close>

lemma skip_path_separators_dropWhile:
  "skip_path_separators is_sep s = dropWhile is_sep s"
  by (induction s) auto

text \<open>
  C5 (as the code has it). With a directory, the result is the first \<open>dir_len\<close>
  characters of the directory (all of it when the length is left to the function), one
  \<open>SYS_PATH_SEPARATOR\<close> unless that part is empty or ends with \<open>SYS_PATH_SEPARATOR\<close>
  already, and the filename without the leading characters that \<open>IS_PATH_SEPARATOR_W\<close>
  accepts. The character appended is \<open>SYS_PATH_SEPARATOR\<close>, and it is the only one the
  end of the directory is tested for. So, \<open>s\<close> being that character, the directory
  \<open>s a s b\<close> and the name \<open>s c\<close> give \<open>s a s b s c\<close>, and so do the directory
  \<open>s a s b s\<close> and the name \<open>c\<close>. Where \<open>SYS_PATH_SEPARATOR\<close> is the backslash and
  the slash is a separator too, the directory \<^verbatim>\<open>/a/b\<close> and the name \<^verbatim>\<open>/c\<close> give
  \<^verbatim>\<open>/a/b\c\<close>, the directory \<^verbatim>\<open>/a/b/\<close> and the name \<^verbatim>\<open>c\<close> give \<^verbatim>\<open>/a/b/\c\<close>, and the
  directory \<^verbatim>\<open>/a/b\<close> followed by a backslash and the name \<^verbatim>\<open>c\<close> give \<^verbatim>\<open>/a/b\c\<close>.
\<close>

theorem make_pathw_with_directory:
  "(\<forall>dp name. make_pathw E (Some dp) (- 1) name =
      Some ((if dp = [] then []
             else if last dp = SYS_PATH_SEPARATOR E then dp
             else dp @ [SYS_PATH_SEPARATOR E])
            @ dropWhile (IS_PATH_SEPARATOR_W E) name)) \<and>
   (\<forall>dp dl name. dl \<noteq> - 1 \<and> unat dl \<le> length dp \<longrightarrow>
      make_pathw E (Some dp) dl name =
      Some ((if take (unat dl) dp = [] then []
             else if last (take (unat dl) dp) = SYS_PATH_SEPARATOR E then take (unat dl) dp
             else take (unat dl) dp @ [SYS_PATH_SEPARATOR E])
            @ dropWhile (IS_PATH_SEPARATOR_W E) name)) \<and>
   (\<forall>dp dl name. dl \<noteq> - 1 \<and> unat dl = length dp + 1 \<longrightarrow>
      make_pathw E (Some dp) dl name = Some dp) \<and>
   (\<forall>s a b c. s = SYS_PATH_SEPARATOR E \<and> IS_PATH_SEPARATOR_W E s \<and> b \<noteq> s \<and>
      \<not> IS_PATH_SEPARATOR_W E c \<longrightarrow>
      make_pathw E (Some [s, a, s, b]) (- 1) [s, c] = Some [s, a, s, b, s, c] \<and>
      make_pathw E (Some [s, a, s, b, s]) (- 1) [c] = Some [s, a, s, b, s, c]) \<and>
   (SYS_PATH_SEPARATOR E = of_char (CHR 0x5C) \<and>
    IS_PATH_SEPARATOR_W E (of_char (CHR ''/'')) \<and>
    \<not> IS_PATH_SEPARATOR_W E (of_char (CHR ''c'')) \<longrightarrow>
      make_pathw E (Some (wide ''/a/b'')) (- 1) (wide ''/c'')
        = Some (wide ''/a/b'' @ [of_char (CHR 0x5C)] @ wide ''c'') \<and>
      make_pathw E (Some (wide ''/a/b/'')) (- 1) (wide ''c'')
        = Some (wide ''/a/b/'' @ [of_char (CHR 0x5C)] @ wide ''c'') \<and>
      make_pathw E (Some (wide ''/a/b'' @ [of_char (CHR 0x5C)])) (- 1) (wide ''c'')
        = Some (wide ''/a/b'' @ [of_char (CHR 0x5C)] @ wide ''c''))"
proof -
  have general: "make_pathw E (Some dp) (- 1) name =
      Some ((if dp = [] then []
             else if last dp = SYS_PATH_SEPARATOR E then dp
             else dp @ [SYS_PATH_SEPARATOR E])
            @ dropWhile (IS_PATH_SEPARATOR_W E) name)" for dp name
    by (cases "dp = []")
       (simp_all add: make_pathw_def Let_def skip_path_separators_dropWhile last_conv_nth)
  have explicit: "make_pathw E (Some dp) dl name =
      Some ((if take (unat dl) dp = [] then []
             else if last (take (unat dl) dp) = SYS_PATH_SEPARATOR E then take (unat dl) dp
             else take (unat dl) dp @ [SYS_PATH_SEPARATOR E])
            @ dropWhile (IS_PATH_SEPARATOR_W E) name)"
    if "dl \<noteq> - 1" "unat dl \<le> length dp" for dp dl name
  proof (cases "unat dl = 0")
    case True
    with that show ?thesis
      by (simp add: make_pathw_def Let_def skip_path_separators_dropWhile)
  next
    case False
    with that have "take (unat dl) dp \<noteq> []" "length (take (unat dl) dp) = unat dl"
      by auto
    with that False show ?thesis
      by (simp add: make_pathw_def Let_def skip_path_separators_dropWhile last_conv_nth)
  qed
  have beyond: "make_pathw E (Some dp) dl name = Some dp"
    if "dl \<noteq> - 1" "unat dl = length dp + 1" for dp dl name
    using that by (simp add: make_pathw_def Let_def)
  have examples: "make_pathw E (Some [s, a, s, b]) (- 1) [s, c] = Some [s, a, s, b, s, c] \<and>
      make_pathw E (Some [s, a, s, b, s]) (- 1) [c] = Some [s, a, s, b, s, c]"
    if "s = SYS_PATH_SEPARATOR E" "IS_PATH_SEPARATOR_W E s" "b \<noteq> s" "\<not> IS_PATH_SEPARATOR_W E c"
    for s a b c
    using that by (simp add: general)
  have windows: "make_pathw E (Some (wide ''/a/b'')) (- 1) (wide ''/c'')
        = Some (wide ''/a/b'' @ [of_char (CHR 0x5C)] @ wide ''c'') \<and>
      make_pathw E (Some (wide ''/a/b/'')) (- 1) (wide ''c'')
        = Some (wide ''/a/b/'' @ [of_char (CHR 0x5C)] @ wide ''c'') \<and>
      make_pathw E (Some (wide ''/a/b'' @ [of_char (CHR 0x5C)])) (- 1) (wide ''c'')
        = Some (wide ''/a/b'' @ [of_char (CHR 0x5C)] @ wide ''c'')"
    if "SYS_PATH_SEPARATOR E = of_char (CHR 0x5C)" "IS_PATH_SEPARATOR_W E (of_char (CHR ''/''))"
      "\<not> IS_PATH_SEPARATOR_W E (of_char (CHR ''c''))"
    using that by (simp add: general wide_def)
  from general explicit beyond examples windows show ?thesis
    by blast
qed

theorem make_pathw_with_directory_witness:
  "SYS_PATH_SEPARATOR demo_env = of_char (CHR 0x5C) \<and>
   IS_PATH_SEPARATOR_W demo_env (of_char (CHR ''/'')) \<and>
   \<not> IS_PATH_SEPARATOR_W demo_env (of_char (CHR ''c'')) \<and>
   make_pathw demo_env (Some (wide ''/a/b'')) (- 1) (wide ''/c'')
     = Some (wide ''/a/b'' @ [of_char (CHR 0x5C)] @ wide ''c'') \<and>
   make_pathw demo_env (Some (wide ''/a/b/'')) (- 1) (wide ''c'')
     = Some (wide ''/a/b/'' @ [of_char (CHR 0x5C)] @ wide ''c'') \<and>
   make_pathw demo_env (Some (wide ''/a/b'' @ [of_char (CHR 0x5C)])) (- 1) (wide ''c'')
     = Some (wide ''/a/b'' @ [of_char (CHR 0x5C)] @ wide ''c'') \<and>
   (2 :: size_t) \<noteq> - 1 \<and> unat (2 :: size_t) \<le> length (wide ''/a/b'') \<and>
   make_pathw demo_env (Some (wide ''/a/b'')) 2 (wide ''//c'')
     = Some (wide ''/a'' @ [of_char (CHR 0x5C)] @ wide ''c'') \<and>
   (5 :: size_t) \<noteq> - 1 \<and> unat (5 :: size_t) = length (wide ''/a/b'') + 1 \<and>
   make_pathw demo_env (Some (wide ''/a/b'')) 5 (wide ''c'') = Some (wide ''/a/b'') \<and>
   make_pathw demo_env (Some (wide ''/a/b'')) 6 (wide ''c'') = None \<and>
   make_pathw demo_env (Some []) (- 1) (wide ''/c'') = Some (wide ''c'')"
proof -
  have separators: "SYS_PATH_SEPARATOR demo_env = of_char (CHR 0x5C) \<and>
      IS_PATH_SEPARATOR_W demo_env (of_char (CHR ''/'')) \<and>
      \<not> IS_PATH_SEPARATOR_W demo_env (of_char (CHR ''c''))"
    by (simp add: demo_env_def)
  have lengths: "(2 :: size_t) \<noteq> - 1 \<and> unat (2 :: size_t) \<le> length (wide ''/a/b'')"
    "(5 :: size_t) \<noteq> - 1 \<and> unat (5 :: size_t) = length (wide ''/a/b'') + 1"
    by (simp_all add: wide_def)
  have more: "make_pathw demo_env (Some (wide ''/a/b'')) 2 (wide ''//c'')
        = Some (wide ''/a'' @ [of_char (CHR 0x5C)] @ wide ''c'') \<and>
      make_pathw demo_env (Some (wide ''/a/b'')) 6 (wide ''c'') = None \<and>
      make_pathw demo_env (Some []) (- 1) (wide ''/c'') = Some (wide ''c'')"
    by (simp add: make_pathw_def demo_env_def wide_def)
  from make_pathw_with_directory [of demo_env] separators lengths more show ?thesis
    by blast
qed

text \<open>
  C5 as it was stated gives \<^verbatim>\<open>/a/b/c\<close> for both examples. The separator the function
  appends and tests for is the backslash of the platform the file is compiled for
  (the file is under \<^verbatim>\<open>#ifdef _WIN32\<close>, and \<^verbatim>\<open>win_opendir\<close> appends \<^verbatim>\<open>\*\<close>), while the
  leading separators it removes are the backslash and the slash: the first example
  gives \<^verbatim>\<open>/a/b\c\<close> and the second, whose directory ends with a slash, gives
  \<^verbatim>\<open>/a/b/\c\<close>, with two separators; and the empty directory gets no separator at all.
\<close>

theorem make_pathw_examples_on_windows:
  "make_pathw demo_env (Some (wide ''/a/b'')) (- 1) (wide ''/c'') \<noteq> Some (wide ''/a/b/c'') \<and>
   make_pathw demo_env (Some (wide ''/a/b/'')) (- 1) (wide ''c'') \<noteq> Some (wide ''/a/b/c'') \<and>
   make_pathw demo_env (Some (wide ''/a/b'')) (- 1) (wide ''/c'')
     \<noteq> make_pathw demo_env (Some (wide ''/a/b/'')) (- 1) (wide ''c'') \<and>
   make_pathw demo_env (Some (wide ''/a/b'')) (- 1) (wide ''/c'')
     = Some (wide ''/a/b'' @ [of_char (CHR 0x5C)] @ wide ''c'') \<and>
   make_pathw demo_env (Some (wide ''/a/b/'')) (- 1) (wide ''c'')
     = Some (wide ''/a/b/'' @ [of_char (CHR 0x5C)] @ wide ''c'') \<and>
   make_pathw demo_env (Some []) (- 1) (wide ''/c'') = Some (wide ''c'')"
  by (simp add: make_pathw_def demo_env_def wide_def)

text \<open>
  C6 (as the code has it). Without a directory the result is the filename as it was
  given: the leading separators are removed only where there is a directory.
\<close>

theorem make_pathw_absent_directory:
  "make_pathw E None dir_len filename = Some filename"
  by (simp add: make_pathw_def)

text \<open>C6 as it was stated: the name \<^verbatim>\<open>/c\<close> keeps its separator.\<close>

theorem make_pathw_absent_directory_keeps_separators:
  "make_pathw demo_env None 0 (wide ''/c'') \<noteq>
     Some (skip_path_separators (IS_PATH_SEPARATOR_W demo_env) (wide ''/c''))"
  by (simp add: make_pathw_def demo_env_def wide_def)

subsection \<open>Directory iterator: opening\<close>

lemmas opendir_defs = win_opendir_def win_opendir_find_def c2w_def cstr_to_wchar_def
  zeroed_WIN_DIR_def set_errno_from_last_file_error_def convert_last_error_to_errno_def
  GetLastError_def listing_pattern_def Let_def

lemma win_opendir_allocated:
  assumes "malloc E (length dir_path + 3) w = (True, wa)"
    and "malloc E (sizeof_WIN_DIR E) wa = (True, wb)"
  shows "win_opendir E flags dir_path w =
    (case win_opendir_find E flags (listing_pattern dir_path) zeroed_WIN_DIR wb of
       (d, w5) \<Rightarrow>
         if hFind d = INVALID_HANDLE_VALUE \<and> last_error w5 = ERROR_ACCESS_DENIED
         then (None, w5\<lparr>errno := EACCES\<rparr>)
         else (Some (d\<lparr>state := (if hFind d = INVALID_HANDLE_VALUE then - 1 else 0),
                       dir := (dir d)\<lparr>d_name := None\<rparr>\<rparr>),
               set_errno_from_last_file_error w5))"
  using assms
  by (simp add: win_opendir_def listing_pattern_def Let_def GetLastError_def
      split: prod.splits)

lemma FindFirstFileW_trace:
  "FindFirstFileW E wp buf w = (r, w') \<Longrightarrow> trace w' = trace w @ [FindFirstFileW_call wp]"
  unfolding FindFirstFileW_def by (rule native_call_trace)

lemma win_opendir_find_denied:
  assumes "c2w E flags path 0 wb = (Some wp, w1)"
    and "FindFirstFileW E wp (findFileData d0) w1 = ((INVALID_HANDLE_VALUE, buf), w2)"
    and "last_error w2 = ERROR_ACCESS_DENIED"
  shows "win_opendir_find E flags path d0 wb =
      (d0\<lparr>hFind := INVALID_HANDLE_VALUE, findFileData := buf\<rparr>, w2)"
  using assms by (simp add: win_opendir_find_def GetLastError_def)

lemma win_opendir_find_second:
  assumes "c2w E flags path 0 wb = (wpath, w1)"
    and "(case wpath of
            Some wp \<Rightarrow> FindFirstFileW E wp (findFileData d0) w1
          | None \<Rightarrow> ((INVALID_HANDLE_VALUE, findFileData d0), w1))
         = ((INVALID_HANDLE_VALUE, buf), w2)"
    and "last_error w2 \<noteq> ERROR_ACCESS_DENIED"
    and "win_opendir_find E flags path d0 wb = (d, w5)"
  shows "second_attempt_follows E flags path w2 w5"
proof -
  obtain wp3 w3 where c: "c2w E flags path 1 w2 = (wp3, w3)"
    by (metis prod.exhaust)
  from c2w_trace [OF c] obtain rest where
    t: "trace w3 = trace w2 @
      MultiByteToWideChar_call (attempt_codepage E flags 1) MB_ERR_INVALID_CHARS path 0 # rest"
    by blast
  show ?thesis
  proof (cases wp3)
    case None
    with assms c have "w5 = w3"
      by (simp add: win_opendir_find_def GetLastError_def)
    with t show ?thesis by (auto intro: second_attempt_followsI)
  next
    case (Some wp)
    obtain h b w4 where f: "FindFirstFileW E wp buf w3 = ((h, b), w4)"
      by (metis prod.exhaust)
    with assms c Some have "w5 = w4"
      by (simp add: win_opendir_find_def GetLastError_def)
    moreover from f have "trace w4 = trace w3 @ [FindFirstFileW_call wp]"
      by (rule FindFirstFileW_trace)
    ultimately show ?thesis using t by (auto intro: second_attempt_followsI)
  qed
qed


lemma win_opendir_find_retry:
  assumes "c2w E flags path 0 wb = (wpath, w1)"
    and "(case wpath of
            Some wp \<Rightarrow> FindFirstFileW E wp (findFileData d0) w1
          | None \<Rightarrow> ((INVALID_HANDLE_VALUE, findFileData d0), w1))
         = ((INVALID_HANDLE_VALUE, buf), w2)"
    and "last_error w2 \<noteq> ERROR_ACCESS_DENIED"
    and "opendir_second_attempt E flags path buf w2 = ((h1, buf1), w4)"
  shows "win_opendir_find E flags path d0 wb = (d0\<lparr>hFind := h1, findFileData := buf1\<rparr>, w4)"
proof -
  obtain wp3 w3 where c: "c2w E flags path 1 w2 = (wp3, w3)"
    by (metis prod.exhaust)
  show ?thesis
  proof (cases wp3)
    case None
    with assms c show ?thesis
      by (simp add: win_opendir_find_def opendir_second_attempt_def GetLastError_def)
  next
    case (Some wp)
    with assms c show ?thesis
      by (simp add: win_opendir_find_def opendir_second_attempt_def GetLastError_def)
  qed
qed

lemma win_opendir_retry:
  assumes "malloc E (length dir_path + 3) w = (True, wa)"
    and "malloc E (sizeof_WIN_DIR E) wa = (True, wb)"
    and "c2w E flags (listing_pattern dir_path) 0 wb = (wpath, w1)"
    and "(case wpath of
            Some wp \<Rightarrow> FindFirstFileW E wp (findFileData zeroed_WIN_DIR) w1
          | None \<Rightarrow> ((INVALID_HANDLE_VALUE, findFileData zeroed_WIN_DIR), w1))
         = ((INVALID_HANDLE_VALUE, buf), w2)"
    and "last_error w2 \<noteq> ERROR_ACCESS_DENIED"
  shows "win_opendir E flags dir_path w =
    (case opendir_second_attempt E flags (listing_pattern dir_path) buf w2 of
       ((h1, buf1), w4) \<Rightarrow> opendir_result h1 buf1 w4)"
proof -
  obtain h1 buf1 w4 where
    s: "opendir_second_attempt E flags (listing_pattern dir_path) buf w2 = ((h1, buf1), w4)"
    by (metis prod.exhaust)
  from win_opendir_find_retry [OF assms(3-5) s] show ?thesis
    by (simp add: win_opendir_allocated [OF assms(1,2)] s opendir_result_def
        zeroed_WIN_DIR_def set_errno_from_last_file_error_def)
qed

text \<open>
  C3. Both blocks being allocated, if the path converts with attempt 0 and the native
  enumeration call fails with \<open>ERROR_ACCESS_DENIED\<close>, \<^verbatim>\<open>win_opendir\<close> returns \<^verbatim>\<open>NULL\<close>
  with \<open>errno = EACCES\<close> in the state that call left: no further native call is made,
  so attempt 1 is not tried. If the call fails with another error, or the path does not
  convert and the last error is not \<open>ERROR_ACCESS_DENIED\<close>, the next native call is the
  conversion of the pattern with attempt 1, and \<^verbatim>\<open>win_opendir\<close> returns what the
  attempt with the secondary codepage decides: the pattern is converted with attempt 1,
  \<^verbatim>\<open>FindFirstFileW\<close> is called on it if it converts, and the handle and the last error
  this leaves make the result.
\<close>

theorem win_opendir_access_denied:
  assumes "malloc E (length dir_path + 3) w = (True, wa)"
    and "malloc E (sizeof_WIN_DIR E) wa = (True, wb)"
  shows "case c2w E flags (listing_pattern dir_path) 0 wb of
      (Some wp, w1) \<Rightarrow>
        (case FindFirstFileW E wp (findFileData zeroed_WIN_DIR) w1 of
           ((h, buf), w2) \<Rightarrow>
             (h = INVALID_HANDLE_VALUE \<and> last_error w2 = ERROR_ACCESS_DENIED \<longrightarrow>
                win_opendir E flags dir_path w = (None, w2\<lparr>errno := EACCES\<rparr>) \<and>
                calls_after w2 (snd (win_opendir E flags dir_path w)) = []) \<and>
             (h = INVALID_HANDLE_VALUE \<and> last_error w2 \<noteq> ERROR_ACCESS_DENIED \<longrightarrow>
                second_attempt_follows E flags (listing_pattern dir_path) w2
                  (snd (win_opendir E flags dir_path w)) \<and>
                win_opendir E flags dir_path w =
                  (case opendir_second_attempt E flags (listing_pattern dir_path) buf w2 of
                     ((h1, buf1), w4) \<Rightarrow> opendir_result h1 buf1 w4)))
    | (None, w1) \<Rightarrow>
        (last_error w1 \<noteq> ERROR_ACCESS_DENIED \<longrightarrow>
           second_attempt_follows E flags (listing_pattern dir_path) w1
             (snd (win_opendir E flags dir_path w)) \<and>
           win_opendir E flags dir_path w =
             (case opendir_second_attempt E flags (listing_pattern dir_path)
                     (findFileData zeroed_WIN_DIR) w1 of
                ((h1, buf1), w4) \<Rightarrow> opendir_result h1 buf1 w4))"
proof -
  let ?path = "listing_pattern dir_path"
  note alloc = win_opendir_allocated [OF assms, of flags]
  obtain d w5 where fnd: "win_opendir_find E flags ?path zeroed_WIN_DIR wb = (d, w5)"
    by (metis prod.exhaust)
  have tr: "trace (snd (win_opendir E flags dir_path w)) = trace w5"
    using fnd by (simp add: alloc set_errno_from_last_file_error_def)
  have follows: "second_attempt_follows E flags ?path w2 (snd (win_opendir E flags dir_path w))"
    if "second_attempt_follows E flags ?path w2 w5" for w2
    using that tr by (simp add: second_attempt_follows_def calls_after_def)
  obtain wpath w1 where c: "c2w E flags ?path 0 wb = (wpath, w1)"
    by (metis prod.exhaust)
  show ?thesis
  proof (cases wpath)
    case None
    with c have c': "c2w E flags ?path 0 wb = (None, w1)"
      by simp
    have "second_attempt_follows E flags ?path w1 w5"
      if "last_error w1 \<noteq> ERROR_ACCESS_DENIED"
      by (rule win_opendir_find_second [OF c _ that fnd]) (simp add: None)
    then have other: "second_attempt_follows E flags ?path w1
        (snd (win_opendir E flags dir_path w))"
      if "last_error w1 \<noteq> ERROR_ACCESS_DENIED"
      using that by (blast intro: follows)
    have retry: "win_opendir E flags dir_path w =
        (case opendir_second_attempt E flags ?path (findFileData zeroed_WIN_DIR) w1 of
           ((h1, buf1), w4) \<Rightarrow> opendir_result h1 buf1 w4)"
      if "last_error w1 \<noteq> ERROR_ACCESS_DENIED"
      by (rule win_opendir_retry [OF assms c _ that]) (simp add: None)
    show ?thesis
      unfolding c' prod.case option.case using other retry by blast
  next
    case (Some wp)
    obtain h buf w2 where
      f: "FindFirstFileW E wp (findFileData zeroed_WIN_DIR) w1 = ((h, buf), w2)"
      by (metis prod.exhaust)
    have denied: "win_opendir E flags dir_path w = (None, w2\<lparr>errno := EACCES\<rparr>) \<and>
        calls_after w2 (snd (win_opendir E flags dir_path w)) = []"
      if "h = INVALID_HANDLE_VALUE" "last_error w2 = ERROR_ACCESS_DENIED"
      using win_opendir_find_denied [of E flags ?path wb wp w1 zeroed_WIN_DIR buf w2]
        c Some f that
      by (simp add: alloc calls_after_def)
    have "second_attempt_follows E flags ?path w2 w5"
      if "h = INVALID_HANDLE_VALUE" "last_error w2 \<noteq> ERROR_ACCESS_DENIED"
      by (rule win_opendir_find_second [OF c _ that(2) fnd]) (simp add: Some f that(1))
    then have other: "second_attempt_follows E flags ?path w2
        (snd (win_opendir E flags dir_path w))"
      if "h = INVALID_HANDLE_VALUE" "last_error w2 \<noteq> ERROR_ACCESS_DENIED"
      using that by (blast intro: follows)
    have retry: "win_opendir E flags dir_path w =
        (case opendir_second_attempt E flags ?path buf w2 of
           ((h1, buf1), w4) \<Rightarrow> opendir_result h1 buf1 w4)"
      if "h = INVALID_HANDLE_VALUE" "last_error w2 \<noteq> ERROR_ACCESS_DENIED"
      by (rule win_opendir_retry [OF assms c _ that(2)]) (simp add: Some f that(1))
    from c Some have c': "c2w E flags ?path 0 wb = (Some wp, w1)"
      by simp
    show ?thesis
      unfolding c' prod.case option.case f using denied other retry by blast
  qed
qed

theorem win_opendir_access_denied_witness:
  "malloc demo_env (length ''secret'' + 3) demo_world
     = (True, snd (malloc demo_env (length ''secret'' + 3) demo_world)) \<and>
   malloc demo_env (sizeof_WIN_DIR demo_env)
       (snd (malloc demo_env (length ''secret'' + 3) demo_world))
     = (True, snd (malloc demo_env (sizeof_WIN_DIR demo_env)
                (snd (malloc demo_env (length ''secret'' + 3) demo_world)))) \<and>
   (case c2w demo_env 0 (listing_pattern ''secret'') 0
           (snd (malloc demo_env (sizeof_WIN_DIR demo_env)
              (snd (malloc demo_env (length ''secret'' + 3) demo_world)))) of
      (Some wp, w1) \<Rightarrow>
        (case FindFirstFileW demo_env wp (findFileData zeroed_WIN_DIR) w1 of
           ((h, buf), w2) \<Rightarrow>
             (h = INVALID_HANDLE_VALUE \<and> last_error w2 = ERROR_ACCESS_DENIED \<longrightarrow>
                win_opendir demo_env 0 ''secret'' demo_world = (None, w2\<lparr>errno := EACCES\<rparr>) \<and>
                calls_after w2 (snd (win_opendir demo_env 0 ''secret'' demo_world)) = []) \<and>
             (h = INVALID_HANDLE_VALUE \<and> last_error w2 \<noteq> ERROR_ACCESS_DENIED \<longrightarrow>
                second_attempt_follows demo_env 0 (listing_pattern ''secret'') w2
                  (snd (win_opendir demo_env 0 ''secret'' demo_world)) \<and>
                win_opendir demo_env 0 ''secret'' demo_world =
                  (case opendir_second_attempt demo_env 0 (listing_pattern ''secret'') buf w2 of
                     ((h1, buf1), w4) \<Rightarrow> opendir_result h1 buf1 w4)))
    | (None, w1) \<Rightarrow>
        (last_error w1 \<noteq> ERROR_ACCESS_DENIED \<longrightarrow>
           second_attempt_follows demo_env 0 (listing_pattern ''secret'') w1
             (snd (win_opendir demo_env 0 ''secret'' demo_world)) \<and>
           win_opendir demo_env 0 ''secret'' demo_world =
             (case opendir_second_attempt demo_env 0 (listing_pattern ''secret'')
                     (findFileData zeroed_WIN_DIR) w1 of
                ((h1, buf1), w4) \<Rightarrow> opendir_result h1 buf1 w4))) \<and>
   fst (win_opendir demo_env 0 ''secret'' demo_world) = None \<and>
   errno (snd (win_opendir demo_env 0 ''secret'' demo_world)) = EACCES \<and>
   trace (snd (win_opendir demo_env 0 ''secret'' demo_world)) =
     [malloc_call 9, malloc_call 640,
      MultiByteToWideChar_call CP_ACP MB_ERR_INVALID_CHARS (listing_pattern ''secret'') 0,
      MultiByteToWideChar_call CP_ACP 0 (listing_pattern ''secret'') 9,
      FindFirstFileW_call (wide (listing_pattern ''secret''))] \<and>
   trace (snd (win_opendir demo_env 0 ''nodir'' demo_world)) =
     [malloc_call 8, malloc_call 640,
      MultiByteToWideChar_call CP_ACP MB_ERR_INVALID_CHARS (listing_pattern ''nodir'') 0,
      MultiByteToWideChar_call CP_ACP 0 (listing_pattern ''nodir'') 8,
      FindFirstFileW_call (wide (listing_pattern ''nodir'')),
      MultiByteToWideChar_call CP_UTF8 MB_ERR_INVALID_CHARS (listing_pattern ''nodir'') 0,
      MultiByteToWideChar_call CP_UTF8 0 (listing_pattern ''nodir'') 8,
      FindFirstFileW_call (wide (listing_pattern ''nodir''))] \<and>
   map_option hFind (fst (win_opendir demo_env 0x10000000 (''caf'' @ [CHR 0xE9]) demo_world))
     = Some 3 \<and>
   map_option state (fst (win_opendir demo_env 0x10000000 (''caf'' @ [CHR 0xE9]) demo_world))
     = Some 0 \<and>
   trace (snd (win_opendir demo_env 0x10000000 (''caf'' @ [CHR 0xE9]) demo_world)) =
     [malloc_call 7, malloc_call 640,
      MultiByteToWideChar_call CP_UTF8 MB_ERR_INVALID_CHARS
        (listing_pattern (''caf'' @ [CHR 0xE9])) 0,
      MultiByteToWideChar_call CP_ACP MB_ERR_INVALID_CHARS
        (listing_pattern (''caf'' @ [CHR 0xE9])) 0,
      MultiByteToWideChar_call CP_ACP 0 (listing_pattern (''caf'' @ [CHR 0xE9])) 7,
      FindFirstFileW_call (wide (listing_pattern (''caf'' @ [CHR 0xE9])))]"
proof -
  note ev = opendir_defs demo_defs native_defs const_defs winerror_defs
  have h1: "malloc demo_env (length ''secret'' + 3) demo_world
     = (True, snd (malloc demo_env (length ''secret'' + 3) demo_world))"
    by (simp add: malloc_def native_call_def demo_env_def)
  have h2: "malloc demo_env (sizeof_WIN_DIR demo_env)
       (snd (malloc demo_env (length ''secret'' + 3) demo_world))
     = (True, snd (malloc demo_env (sizeof_WIN_DIR demo_env)
                (snd (malloc demo_env (length ''secret'' + 3) demo_world))))"
    by (simp add: malloc_def native_call_def demo_env_def)
  have e1: "fst (win_opendir demo_env 0 ''secret'' demo_world) = None"
    by (simp add: ev)
  have e2: "errno (snd (win_opendir demo_env 0 ''secret'' demo_world)) = EACCES"
    by (simp add: ev)
  have e3: "trace (snd (win_opendir demo_env 0 ''secret'' demo_world)) =
     [malloc_call 9, malloc_call 640,
      MultiByteToWideChar_call CP_ACP MB_ERR_INVALID_CHARS (listing_pattern ''secret'') 0,
      MultiByteToWideChar_call CP_ACP 0 (listing_pattern ''secret'') 9,
      FindFirstFileW_call (wide (listing_pattern ''secret''))]"
    by (simp add: ev)
  have e4: "trace (snd (win_opendir demo_env 0 ''nodir'' demo_world)) =
     [malloc_call 8, malloc_call 640,
      MultiByteToWideChar_call CP_ACP MB_ERR_INVALID_CHARS (listing_pattern ''nodir'') 0,
      MultiByteToWideChar_call CP_ACP 0 (listing_pattern ''nodir'') 8,
      FindFirstFileW_call (wide (listing_pattern ''nodir'')),
      MultiByteToWideChar_call CP_UTF8 MB_ERR_INVALID_CHARS (listing_pattern ''nodir'') 0,
      MultiByteToWideChar_call CP_UTF8 0 (listing_pattern ''nodir'') 8,
      FindFirstFileW_call (wide (listing_pattern ''nodir''))]"
    by (simp add: ev)
  have e5: "map_option hFind
      (fst (win_opendir demo_env 0x10000000 (''caf'' @ [CHR 0xE9]) demo_world)) = Some 3"
    by (simp add: ev)
  have e6: "map_option state
      (fst (win_opendir demo_env 0x10000000 (''caf'' @ [CHR 0xE9]) demo_world)) = Some 0"
    by (simp add: ev)
  have e7: "trace (snd (win_opendir demo_env 0x10000000 (''caf'' @ [CHR 0xE9]) demo_world)) =
     [malloc_call 7, malloc_call 640,
      MultiByteToWideChar_call CP_UTF8 MB_ERR_INVALID_CHARS
        (listing_pattern (''caf'' @ [CHR 0xE9])) 0,
      MultiByteToWideChar_call CP_ACP MB_ERR_INVALID_CHARS
        (listing_pattern (''caf'' @ [CHR 0xE9])) 0,
      MultiByteToWideChar_call CP_ACP 0 (listing_pattern (''caf'' @ [CHR 0xE9])) 7,
      FindFirstFileW_call (wide (listing_pattern (''caf'' @ [CHR 0xE9])))]"
    by (simp add: ev)
  from win_opendir_access_denied [OF h1 h2, of 0] h1 h2 e1 e2 e3 e4 e5 e6 e7
  show ?thesis
    by blast
qed






subsection \<open>Directory iterator: reading\<close>

lemmas readdir_defs = win_readdir_def win_readdir_loop.simps wchar_to_cstr_def wchar_at_def
  demo_iterator_def demo_listing_def Let_def

lemma pseudo_entry_test:
  "name = wide ''.'' \<or> name = wide ''..'' \<Longrightarrow>
   wchar_at name 0 = of_char (CHR ''.'') \<and>
     (wchar_at name 1 = 0 \<or>
      (wchar_at name 1 = of_char (CHR ''.'') \<and> wchar_at name 2 = 0))"
  by (auto simp: wide_def wchar_at_def)

lemma win_readdir_loop_post:
  assumes "win_readdir_loop E flags d w = Some y"
  shows "readdir_post E flags y"
proof (rule win_readdir_loop.raw_induct
    [where P = "\<lambda>E flags d w y. readdir_post E flags y", OF _ assms], goal_cases)
  case (1 loop E flags d w y)
  note IH = "1"(1) and body = "1"(2)
  obtain ok d1 w1 where
    fetch: "(if 0 < state d
             then case FindNextFileW E (hFind d) (findFileData d) w of
                    ((ok, buf), w1) \<Rightarrow> (ok, d\<lparr>findFileData := buf\<rparr>, w1)
             else (True, d, w)) = (ok, d1, w1)"
    by (metis prod.exhaust)
  show ?case
  proof (cases ok)
    case False
    with body fetch show ?thesis
      by (auto simp: readdir_post_def)
  next
    case True
    let ?d2 = "d1\<lparr>state := state d1 + 1\<rparr>"
    let ?name = "cFileName (findFileData ?d2)"
    show ?thesis
    proof (cases "wchar_at ?name 0 = of_char (CHR ''.'') \<and>
               (wchar_at ?name 1 = 0 \<or>
                (wchar_at ?name 1 = of_char (CHR ''.'') \<and> wchar_at ?name 2 = 0))")
      case skip: True
      with body fetch True have "loop E flags ?d2 w1 = Some y"
        by (simp add: Let_def)
      then show ?thesis by (rule IH)
    next
      case keep: False
      then have names: "?name \<noteq> wide ''.''" "?name \<noteq> wide ''..''"
        using pseudo_entry_test [of ?name] by blast+
      obtain filename failed w2 where
        conv: "wchar_to_cstr E flags ?name WIN_DEFAULT_ENCODING True w1
                 = ((filename, failed), w2)"
        by (metis prod.exhaust)
      show ?thesis
      proof (cases "filename \<noteq> None \<and> failed = Some 0")
        case True
        with body fetch \<open>ok\<close> keep conv names show ?thesis
          by (auto simp: Let_def readdir_post_def intro!: exI [of _ w1])
      next
        case False
        with body fetch \<open>ok\<close> keep conv have "\<exists>dn. loop E flags dn w2 = Some y"
          by (auto simp: Let_def split: if_splits)
        then obtain dn where "loop E flags dn w2 = Some y" ..
        then show ?thesis by (rule IH)
      qed
    qed
  qed
qed

lemma win_readdir_post:
  "win_readdir E flags d w = Some y \<Longrightarrow> readdir_post E flags y"
  by (auto simp: win_readdir_def readdir_post_def dest: win_readdir_loop_post
      split: if_splits)










lemma demo_opendir:
  "fst (win_opendir demo_env 0 ''dir'' demo_world) = Some demo_iterator \<and>
   hidden (snd (win_opendir demo_env 0 ''dir'' demo_world)) = hidden demo_listing"
  by (simp add: opendir_defs demo_defs native_defs const_defs winerror_defs
      demo_iterator_def demo_listing_def)



lemma win_readdir_ended:
  "state d = - 1 \<Longrightarrow> win_readdir E flags d w = Some (None, d, w)"
  by (simp add: win_readdir_def)

lemma win_readdir_n_ended:
  "state d = - 1 \<Longrightarrow> win_readdir_n n E flags d w = Some (None, d, w)"
  by (induction n) (simp_all add: win_readdir_ended)

text \<open>
  C8. Once \<^verbatim>\<open>win_readdir\<close> has returned \<^verbatim>\<open>NULL\<close> the iterator is in the state -1, and
  every later call on it, whatever the native layer has done in between, returns
  \<^verbatim>\<open>NULL\<close> and leaves the iterator and the state of the native layer as they are; so do
  any number of calls in a row.
\<close>

theorem win_readdir_end_is_terminal:
  assumes "win_readdir E flags d w = Some (None, d', w')"
  shows "state d' = - 1 \<and>
    (\<forall>w''. win_readdir E flags d' w'' = Some (None, d', w'')) \<and>
    (\<forall>n w''. win_readdir_n n E flags d' w'' = Some (None, d', w''))"
proof -
  from win_readdir_post [OF assms] have "state d' = - 1"
    by (simp add: readdir_post_def)
  then show ?thesis
    by (simp add: win_readdir_ended win_readdir_n_ended)
qed

theorem win_readdir_end_is_terminal_witness:
  "\<exists>d' w'.
     win_readdir demo_env 0 demo_iterator_last demo_world = Some (None, d', w') \<and>
     trace w' = [FindNextFileW_call 1] \<and>
     state d' = - 1 \<and>
     (\<forall>w''. win_readdir demo_env 0 d' w'' = Some (None, d', w'')) \<and>
     (\<forall>n w''. win_readdir_n n demo_env 0 d' w'' = Some (None, d', w'')) \<and>
     map_option fst (win_readdir_n 2 demo_env 0 demo_iterator demo_listing) = Some None"
proof -
  have "\<exists>d' w'.
     win_readdir demo_env 0 demo_iterator_last demo_world = Some (None, d', w') \<and>
     trace w' = [FindNextFileW_call 1]"
    by (simp add: readdir_defs demo_iterator_last_def demo_defs native_defs const_defs)
  then obtain d' w' where
    r: "win_readdir demo_env 0 demo_iterator_last demo_world = Some (None, d', w')"
    and t: "trace w' = [FindNextFileW_call 1]"
    by blast
  have e: "map_option fst (win_readdir_n 2 demo_env 0 demo_iterator demo_listing) = Some None"
    by (simp add: numeral_2_eq_2 readdir_defs demo_defs native_defs const_defs)
  from win_readdir_end_is_terminal [OF r] r t e show ?thesis
    by blast
qed

end
